theory Spec2Isabelle
  imports Complex_Main
begin

section \<open>Strings and the Python built-ins the interpreter relies on\<close>

text \<open>
  Python strings are sequences of Unicode code points.  The statement markers of the
  language (the cent sign U+00A2, the yen sign U+00A5, the multiplication sign U+00D7)
  and all result prefixes lie outside ASCII, so a character is modelled by its code
  point and a string by a list of code points.  ASCII literals are written through
  \<open>asc\<close>; every other literal is spelled out as code points.
\<close>

type_synonym uchar = nat
type_synonym ustr = "uchar list"

definition asc :: "string \<Rightarrow> ustr" where
  "asc s = map of_char s"

text \<open>
  What the source takes from the Python runtime and is not part of \<open>hsp.py\<close> is a
  parameter of the model: the Unicode tables beyond Latin-1 behind \<open>\w\<close>, \<open>\d\<close>,
  \<open>\s\<close> and \<open>str.strip\<close>; \<open>float()\<close> on anything that is not a plain run of
  ASCII digits and dots (signs, exponents, \<open>inf\<close>, \<open>nan\<close>, underscores, other
  scripts' digits); the textual form of a float and of a quoted string; and \<open>eval\<close>
  followed by the two-decimal formatting of its result (\<open>None\<close> when either raises).
  Floats are modelled by real numbers: rounding, infinities and NaN are not represented.
\<close>

record pyenv =
  u_alnum :: "uchar \<Rightarrow> bool"
  u_decimal :: "uchar \<Rightarrow> nat option"
  u_space :: "uchar \<Rightarrow> bool"
  float_ext :: "ustr \<Rightarrow> real option"
  repr_float :: "real \<Rightarrow> ustr"
  repr_str :: "ustr \<Rightarrow> ustr"
  eval_fmt :: "ustr \<Rightarrow> ustr option"

text \<open>The classes \<open>\w\<close>, \<open>\s\<close> and \<open>\d\<close> of \<open>re\<close> on \<open>str\<close> patterns; the Latin-1
  part is fixed by the Unicode standard and written out.\<close>

definition is_word :: "pyenv \<Rightarrow> uchar \<Rightarrow> bool" where
  "is_word E c =
     (if c < 256 then
        (48 \<le> c \<and> c \<le> 57) \<or> (65 \<le> c \<and> c \<le> 90) \<or> c = 95 \<or> (97 \<le> c \<and> c \<le> 122)
        \<or> c = 170 \<or> c = 178 \<or> c = 179 \<or> c = 181 \<or> c = 185 \<or> c = 186
        \<or> (188 \<le> c \<and> c \<le> 190) \<or> (192 \<le> c \<and> c \<le> 214)
        \<or> (216 \<le> c \<and> c \<le> 246) \<or> 248 \<le> c
      else u_alnum E c)"

definition is_space :: "pyenv \<Rightarrow> uchar \<Rightarrow> bool" where
  "is_space E c =
     (if c < 256 then (9 \<le> c \<and> c \<le> 13) \<or> (28 \<le> c \<and> c \<le> 32) \<or> c = 133 \<or> c = 160
      else u_space E c)"

definition digit_val :: "pyenv \<Rightarrow> uchar \<Rightarrow> nat option" where
  "digit_val E c =
     (if c < 256 then (if 48 \<le> c \<and> c \<le> 57 then Some (c - 48) else None)
      else u_decimal E c)"

definition is_digit :: "pyenv \<Rightarrow> uchar \<Rightarrow> bool" where
  "is_digit E c = (digit_val E c \<noteq> None)"

text \<open>The class \<open>[\d.]\<close>.\<close>

definition is_dd :: "pyenv \<Rightarrow> uchar \<Rightarrow> bool" where
  "is_dd E c = (is_digit E c \<or> c = 46)"

definition ascii_digit :: "uchar \<Rightarrow> bool" where
  "ascii_digit c = (48 \<le> c \<and> c \<le> 57)"

definition dec_value :: "ustr \<Rightarrow> nat" where
  "dec_value ds = foldl (\<lambda>a c. 10 * a + (c - 48)) 0 ds"

text \<open>\<open>float(s)\<close> for a string of ASCII digits and dots: digits with at most one dot
  and at least one digit; anything else raises \<open>ValueError\<close> (\<open>None\<close>).\<close>

definition dec_literal :: "ustr \<Rightarrow> real option" where
  "dec_literal s =
     (let ip = takeWhile ascii_digit s; rest = dropWhile ascii_digit s in
      case rest of
        [] \<Rightarrow> (if ip = [] then None else Some (real (dec_value ip)))
      | c # fp \<Rightarrow>
          (if c = 46 \<and> list_all ascii_digit fp \<and> \<not> (ip = [] \<and> fp = [])
           then Some (real (dec_value ip) + real (dec_value fp) / 10 ^ length fp)
           else None))"

definition py_float :: "pyenv \<Rightarrow> ustr \<Rightarrow> real option" where
  "py_float E s =
     (if list_all (\<lambda>c. ascii_digit c \<or> c = 46) s then dec_literal s else float_ext E s)"

text \<open>\<open>int(s)\<close> on a run of decimal digits (of any script).\<close>

fun py_int_from :: "pyenv \<Rightarrow> nat \<Rightarrow> ustr \<Rightarrow> nat option" where
  "py_int_from E a [] = Some a"
| "py_int_from E a (c # cs) =
     (case digit_val E c of None \<Rightarrow> None | Some v \<Rightarrow> py_int_from E (10 * a + v) cs)"

definition py_int :: "pyenv \<Rightarrow> ustr \<Rightarrow> nat option" where
  "py_int E s = (if s = [] then None else py_int_from E 0 s)"

text \<open>\<open>str(n)\<close> for an integer.\<close>

function nat_digits :: "nat \<Rightarrow> ustr" where
  "nat_digits n = (if n < 10 then [48 + n] else nat_digits (n div 10) @ [48 + n mod 10])"
  by pat_completeness auto
termination
  by (relation "measure (\<lambda>n. n)") auto

declare nat_digits.simps [simp del]

definition str_int :: "int \<Rightarrow> ustr" where
  "str_int i = (if i < 0 then 45 # nat_digits (nat (- i)) else nat_digits (nat i))"

subsection \<open>String methods\<close>

definition lstrip :: "pyenv \<Rightarrow> ustr \<Rightarrow> ustr" where
  "lstrip E s = dropWhile (is_space E) s"

definition rstrip :: "pyenv \<Rightarrow> ustr \<Rightarrow> ustr" where
  "rstrip E s = rev (dropWhile (is_space E) (rev s))"

definition strip :: "pyenv \<Rightarrow> ustr \<Rightarrow> ustr" where
  "strip E s = rstrip E (lstrip E s)"

definition starts_with :: "ustr \<Rightarrow> ustr \<Rightarrow> bool" where
  "starts_with p s = (take (length p) s = p)"

definition ends_with :: "ustr \<Rightarrow> ustr \<Rightarrow> bool" where
  "ends_with p s = (length p \<le> length s \<and> drop (length s - length p) s = p)"

text \<open>\<open>p in s\<close> for strings.\<close>

fun contains :: "ustr \<Rightarrow> ustr \<Rightarrow> bool" where
  "contains p [] = (p = [])"
| "contains p (c # cs) = (starts_with p (c # cs) \<or> contains p cs)"

text \<open>\<open>s.replace(old, new)\<close>: non-overlapping occurrences from the left; for an empty
  \<open>old\<close> Python inserts \<open>new\<close> before every character and at the end.\<close>

function replace_all :: "ustr \<Rightarrow> ustr \<Rightarrow> ustr \<Rightarrow> ustr" where
  "replace_all old new [] = (if old = [] then new else [])"
| "replace_all old new (c # cs) =
     (if old = [] then new @ c # replace_all old new cs
      else if starts_with old (c # cs)
           then new @ replace_all old new (drop (length old) (c # cs))
           else c # replace_all old new cs)"
  by pat_completeness auto
termination
  by (relation "measure (\<lambda>(old, new, s). length s)") auto

text \<open>\<open>s.split(d)\<close> for a one-character separator and \<open>sep.join(xs)\<close>.\<close>

fun split_on :: "uchar \<Rightarrow> ustr \<Rightarrow> ustr list" where
  "split_on d [] = [[]]"
| "split_on d (c # cs) =
     (if c = d then [] # split_on d cs
      else (case split_on d cs of [] \<Rightarrow> [[c]] | p # ps \<Rightarrow> (c # p) # ps))"

fun join :: "ustr \<Rightarrow> ustr list \<Rightarrow> ustr" where
  "join sep [] = []"
| "join sep [x] = x"
| "join sep (x # y # ys) = x @ sep @ join sep (y # ys)"

text \<open>\<open>str(xs)\<close> for a list of strings.\<close>

definition py_str_list :: "pyenv \<Rightarrow> ustr list \<Rightarrow> ustr" where
  "py_str_list E xs = [91] @ join (asc '', '') (map (repr_str E) xs) @ [93]"

subsection \<open>The regular expressions of the source\<close>

text \<open>
  Each pattern of the source is a scanner with the result \<open>re\<close> gives.  In all of them
  a greedy class run is followed by a character outside the class, so the run is
  maximal and backtracking never finds a match that the maximal run misses; the one
  pattern where giving back characters matters, \<open>\s*(.+)\<close>, is written out below.

  \<open>search_run P m\<close> is \<open>re.search\<close> for the marker character \<open>m\<close> followed by a
  non-empty run of the class \<open>P\<close>, returning the run: \<open>\$(\w+)\<close>, \<open>#(\w+)\<close>,
  \<open>\*(\d+)\<close>.
\<close>

fun search_run :: "(uchar \<Rightarrow> bool) \<Rightarrow> uchar \<Rightarrow> ustr \<Rightarrow> ustr option" where
  "search_run P m [] = None"
| "search_run P m (c # cs) =
     (if c = m \<and> takeWhile P cs \<noteq> [] then Some (takeWhile P cs) else search_run P m cs)"

text \<open>\<open>re.findall\<close> for the same shape of pattern: \<open>\$(\w+)\<close>.\<close>

function findall_run :: "(uchar \<Rightarrow> bool) \<Rightarrow> uchar \<Rightarrow> ustr \<Rightarrow> ustr list" where
  "findall_run P m [] = []"
| "findall_run P m (c # cs) =
     (if c = m \<and> takeWhile P cs \<noteq> []
      then takeWhile P cs # findall_run P m (dropWhile P cs)
      else findall_run P m cs)"
  by pat_completeness auto
termination
  by (relation "measure (\<lambda>(P, m, s). length s)")
     (auto simp: length_dropWhile_le less_Suc_eq_le)

text \<open>\<open>re.sub\<close> for the same shape of pattern with a replacement function.\<close>

function sub_run :: "(uchar \<Rightarrow> bool) \<Rightarrow> uchar \<Rightarrow> (ustr \<Rightarrow> ustr) \<Rightarrow> ustr \<Rightarrow> ustr" where
  "sub_run P m f [] = []"
| "sub_run P m f (c # cs) =
     (if c = m \<and> takeWhile P cs \<noteq> []
      then f (takeWhile P cs) @ sub_run P m f (dropWhile P cs)
      else c # sub_run P m f cs)"
  by pat_completeness auto
termination
  by (relation "measure (\<lambda>(P, m, f, s). length s)")
     (auto simp: length_dropWhile_le less_Suc_eq_le)

text \<open>\<open>re.search(r'\(([\d.]+)/', s)\<close> and \<open>re.search(r'([\d.]+)/', s)\<close>.\<close>

definition slash_next :: "ustr \<Rightarrow> bool" where
  "slash_next s = (case s of [] \<Rightarrow> False | x # _ \<Rightarrow> x = 47)"

fun search_paren_pct :: "pyenv \<Rightarrow> ustr \<Rightarrow> ustr option" where
  "search_paren_pct E [] = None"
| "search_paren_pct E (c # cs) =
     (if c = 40 \<and> takeWhile (is_dd E) cs \<noteq> [] \<and> slash_next (dropWhile (is_dd E) cs)
      then Some (takeWhile (is_dd E) cs)
      else search_paren_pct E cs)"

fun search_pct :: "pyenv \<Rightarrow> ustr \<Rightarrow> ustr option" where
  "search_pct E [] = None"
| "search_pct E (c # cs) =
     (if is_dd E c \<and> slash_next (dropWhile (is_dd E) cs)
      then Some (c # takeWhile (is_dd E) cs)
      else search_pct E cs)"

text \<open>\<open>re.search(r'\<times>:(\d+)', s)\<close>, the multiplication sign being U+00D7.\<close>

fun search_times :: "pyenv \<Rightarrow> ustr \<Rightarrow> ustr option" where
  "search_times E [] = None"
| "search_times E (c # cs) =
     (if c = 215 \<and> starts_with [58] cs \<and> takeWhile (is_digit E) (drop 1 cs) \<noteq> []
      then Some (takeWhile (is_digit E) (drop 1 cs))
      else search_times E cs)"

text \<open>
  \<open>(\w+)\(([^)]*)\)\<close> matched at the start of \<open>s\<close>: the name, the text between the
  parentheses, and what follows the closing parenthesis.
\<close>

definition match_name_parens :: "pyenv \<Rightarrow> ustr \<Rightarrow> (ustr \<times> ustr \<times> ustr) option" where
  "match_name_parens E s =
     (let name = takeWhile (is_word E) s in
      if name = [] then None
      else (case dropWhile (is_word E) s of
              [] \<Rightarrow> None
            | c # r \<Rightarrow>
                if c \<noteq> 40 then None
                else (case dropWhile (\<lambda>x. x \<noteq> 41) r of
                        [] \<Rightarrow> None
                      | _ # after \<Rightarrow> Some (name, takeWhile (\<lambda>x. x \<noteq> 41) r, after))))"

text \<open>\<open>re.match(r'\<cent>\.(\w+)\(([^)]*)\)', line)\<close>, the cent sign being U+00A2.\<close>

definition match_def_header :: "pyenv \<Rightarrow> ustr \<Rightarrow> (ustr \<times> ustr) option" where
  "match_def_header E line =
     (if starts_with [162, 46] line
      then (case match_name_parens E (drop 2 line) of
              None \<Rightarrow> None
            | Some (name, inner, after) \<Rightarrow> Some (name, inner))
      else None)"

text \<open>
  \<open>re.match(r'^(?!\<cent>\.)\w+\([^)]*\)$', line) and '(' in line\<close>: \<open>$\<close> matches at the
  end of the string or before a final newline.
\<close>

definition is_call_line :: "pyenv \<Rightarrow> ustr \<Rightarrow> bool" where
  "is_call_line E line =
     ((\<not> starts_with [162, 46] line)
      \<and> (case match_name_parens E line of
            None \<Rightarrow> False
          | Some (name, inner, after) \<Rightarrow> after = [] \<or> after = [10])
      \<and> 40 \<in> set line)"

text \<open>
  \<open>\s*(.+)\<close> matched at the start of \<open>s\<close>, returning the group.  The dot does not
  match a newline.  When only white space is left, \<open>\s*\<close> gives characters back until
  the group can take one that is not a newline.
\<close>

definition ws_then_rest :: "pyenv \<Rightarrow> ustr \<Rightarrow> ustr option" where
  "ws_then_rest E s =
     (let ws = takeWhile (is_space E) s; r = dropWhile (is_space E) s in
      if r \<noteq> [] then Some (takeWhile (\<lambda>c. c \<noteq> 10) r)
      else if filter (\<lambda>c. c \<noteq> 10) ws \<noteq> [] then Some [last (filter (\<lambda>c. c \<noteq> 10) ws)]
      else None)"

text \<open>\<open>re.match(r'#(\w+)\s*=\s*(.+)', line)\<close>.\<close>

definition match_assign :: "pyenv \<Rightarrow> ustr \<Rightarrow> (ustr \<times> ustr) option" where
  "match_assign E line =
     (case line of
        [] \<Rightarrow> None
      | c # cs \<Rightarrow>
          if c = 35 \<and> takeWhile (is_word E) cs \<noteq> [] then
            (case dropWhile (is_space E) (dropWhile (is_word E) cs) of
               [] \<Rightarrow> None
             | e # r \<Rightarrow>
                 if e = 61 then
                   (case ws_then_rest E r of
                      None \<Rightarrow> None
                    | Some g \<Rightarrow> Some (takeWhile (is_word E) cs, g))
                 else None)
          else None)"

text \<open>\<open>re.match(r'return\s*(.+)', line)\<close>.\<close>

definition match_return :: "pyenv \<Rightarrow> ustr \<Rightarrow> ustr option" where
  "match_return E line =
     (if starts_with (asc ''return'') line then ws_then_rest E (drop 6 line) else None)"

text \<open>
  \<open>re.search(r'&A\((.+)\)', line)\<close>: the group runs to the last closing parenthesis
  before the next newline and is not empty.
\<close>

definition math_group :: "ustr \<Rightarrow> ustr option" where
  "math_group s =
     (case dropWhile (\<lambda>c. c \<noteq> 41) (rev (takeWhile (\<lambda>c. c \<noteq> 10) s)) of
        [] \<Rightarrow> None
      | _ # p \<Rightarrow> if p = [] then None else Some (rev p))"

fun search_math :: "ustr \<Rightarrow> ustr option" where
  "search_math [] = None"
| "search_math (c # cs) =
     (if starts_with (asc ''&A('') (c # cs) \<and> math_group (drop 3 (c # cs)) \<noteq> None
      then math_group (drop 3 (c # cs))
      else search_math cs)"

section \<open>The interpreter state\<close>

datatype pyval = VFloat real | VStr ustr

record pool =
  pool_name :: ustr
  total_prob :: real
  items :: "ustr list"

record func =
  func_name :: ustr
  params :: "ustr list"
  body :: "ustr list"

text \<open>
  A Python \<open>dict\<close> keeps its keys in insertion order, and \<open>get_state\<close> and the
  expression handler depend on that order: a dictionary is an association list in which
  assigning to a present key keeps the key's place.
\<close>

fun dict_set :: "('k \<times> 'v) list \<Rightarrow> 'k \<Rightarrow> 'v \<Rightarrow> ('k \<times> 'v) list" where
  "dict_set [] k v = [(k, v)]"
| "dict_set ((k', v') # d) k v = (if k' = k then (k, v) # d else (k', v') # dict_set d k v)"

text \<open>
  The fields of \<open>HPSInterpreter\<close>.  \<open>total_spent\<close> starts as the integer 0 and only
  integers are ever added to it, so it is an integer.  \<open>output_lines\<close> holds a
  reference to a list object rather than the list: \<open>execute\<close> returns that very
  object, and \<open>_call_function\<close> appends to \<open>self.output_lines\<close> while it iterates over
  a list \<open>execute\<close> returned.
\<close>

record interp =
  variables :: "(ustr \<times> pyval) list"
  pools :: "(ustr \<times> pool) list"
  currency :: "(ustr \<times> real) list"
  inventory :: "ustr list"
  pity_counter :: int
  total_spent :: int
  "functions" :: "(ustr \<times> func) list"
  output_lines :: nat
  in_function :: bool
  current_function_lines :: "ustr list"
  current_function_name :: ustr
  current_function_params :: "ustr list"

text \<open>
  The interpreter object together with what surrounds it: the store of output-list
  objects (\<open>cells\<close>, with \<open>nxt\<close> the next unused reference), the random source
  (\<open>random.random()\<close> returns \<open>rnd_floats\<close> at \<open>fpos\<close>, \<open>random.choice\<close> picks the
  index \<open>rnd_picks\<close> at \<open>ppos\<close> modulo the length), and what has been printed.
\<close>

record world =
  self :: interp
  cells :: "nat \<Rightarrow> ustr list"
  nxt :: nat
  rnd_floats :: "nat \<Rightarrow> real"
  rnd_picks :: "nat \<Rightarrow> nat"
  fpos :: nat
  ppos :: nat
  stdout :: "ustr list"

datatype exc = ValueError ustr | IndexError ustr | AttributeError ustr

fun exc_msg :: "exc \<Rightarrow> ustr" where
  "exc_msg (ValueError m) = m"
| "exc_msg (IndexError m) = m"
| "exc_msg (AttributeError m) = m"

definition upd :: "(interp \<Rightarrow> interp) \<Rightarrow> world \<Rightarrow> world" where
  "upd f w = w\<lparr>self := f (self w)\<rparr>"

text \<open>A fresh empty list object, and \<open>self.output_lines.append(s)\<close>.\<close>

definition new_list :: "world \<Rightarrow> nat \<times> world" where
  "new_list w = (nxt w, w\<lparr>cells := (cells w)(nxt w := []), nxt := Suc (nxt w)\<rparr>)"

definition out_append :: "ustr \<Rightarrow> world \<Rightarrow> world" where
  "out_append s w =
     w\<lparr>cells := (cells w)(output_lines (self w) := cells w (output_lines (self w)) @ [s])\<rparr>"

text \<open>\<open>__init__\<close> and \<open>reset\<close>.\<close>

definition init_interp :: "nat \<Rightarrow> interp" where
  "init_interp r =
     \<lparr>variables = [], pools = [], currency = [], inventory = [], pity_counter = 0,
      total_spent = 0, functions = [], output_lines = r, in_function = False,
      current_function_lines = [], current_function_name = [],
      current_function_params = []\<rparr>"

definition reset :: "world \<Rightarrow> world" where
  "reset w = (case new_list w of (r, w1) \<Rightarrow> w1\<lparr>self := init_interp r\<rparr>)"

definition new_world :: "(nat \<Rightarrow> real) \<Rightarrow> (nat \<Rightarrow> nat) \<Rightarrow> world" where
  "new_world fs ps =
     \<lparr>self = init_interp 0, cells = (\<lambda>r. []), nxt = 1, rnd_floats = fs, rnd_picks = ps,
      fpos = 0, ppos = 0, stdout = []\<rparr>"

section \<open>The texts of the result lines\<close>

text \<open>The Chinese words of the source's messages, as code points.\<close>

definition msg_def_usage :: ustr where
  "msg_def_usage =
     [20989, 25968, 23450, 20041, 58, 32, 162, 46, 20989, 25968, 21517, 40, 21442, 25968, 41]"

definition tag_func :: ustr where "tag_func = [91, 20989, 93]"
definition msg_defined :: ustr where "msg_defined = [32, 23450, 20041, 23436, 25104]"
definition tag_note :: ustr where "tag_note = [91, 27880, 93, 32]"
definition msg_unknown :: ustr where "msg_unknown = [91, 63, 93, 32, 26410, 30693, 58, 32]"
definition msg_reset :: ustr where "msg_reset = [91, 10003, 93, 32, 24050, 37325, 32622]"

definition msg_pool_usage :: ustr where
  "msg_pool_usage =
     [27744, 23376, 58, 32, 40, 48, 46, 54, 47, 58, 36, 38647, 30005, 41, 35, 85, 80]"

definition msg_pool_items :: ustr where
  "msg_pool_items = [27744, 23376, 38656, 35201, 29289, 21697]"

definition msg_pool_name :: ustr where
  "msg_pool_name = [27744, 23376, 38656, 35201, 21629, 21517]"

definition tag_pool :: ustr where "tag_pool = [91, 27744, 93, 32, 35]"

definition msg_assign_usage :: ustr where
  "msg_assign_usage = [36171, 20540, 58, 32, 35, 21464, 37327, 32, 61, 32, 20540]"

definition tag_var :: ustr where "tag_var = [91, 21464, 93, 32, 35]"

definition msg_target_usage :: ustr where
  "msg_target_usage =
     [30446, 26631, 58, 32, 60, 36, 38647, 30005, 44, 35, 85, 80, 44, 42, 57, 48, 62]"

definition msg_pool_undefined :: ustr where
  "msg_pool_undefined = [27744, 23376, 26410, 23450, 20041]"

definition tag_draw :: ustr where "tag_draw = [91, 25277, 93, 32, 36]"
definition txt_times_cap :: ustr where "txt_times_cap = [36830, 32, 124, 32, 20445, 24213]"
definition txt_nth :: ustr where "txt_nth = [32, 32, 32, 32, 32, 31532]"
definition txt_draw_item :: ustr where "txt_draw_item = [25277, 58, 32, 36]"
definition tag_hit :: ustr where "tag_hit = [91, 10003, 93, 32, 20986, 36135, 33, 32, 36]"
definition txt_draws_cost :: ustr where "txt_draws_cost = [25277, 32, 165]"
definition tag_pity :: ustr where "tag_pity = [91, 33, 93, 32, 20445, 24213, 32, 124, 32, 36]"
definition tag_out :: ustr where "tag_out = [91, 20986, 93, 32]"
definition txt_undefined :: ustr where "txt_undefined = [91, 26410, 23450, 20041, 58, 35]"
definition tag_calc :: ustr where "tag_calc = [91, 31639, 93, 32]"

definition tag_calc_error :: ustr where
  "tag_calc_error = [91, 31639, 93, 32, 38169, 35823, 58, 32]"

definition msg_func_undefined :: ustr where
  "msg_func_undefined = [91, 33, 93, 32, 20989, 25968, 26410, 23450, 20041, 58, 32]"

definition tag_call :: ustr where "tag_call = [91, 35843, 93, 32, 162, 46]"
definition tag_return :: ustr where "tag_return = [91, 36820, 93, 32]"
definition txt_state :: ustr where "txt_state = [128202, 32, 29366, 24577]"
definition txt_state_pools :: ustr where "txt_state_pools = [32, 32, 27744, 58, 32]"
definition txt_state_funcs :: ustr where "txt_state_funcs = [32, 32, 20989, 58, 32]"
definition txt_state_vars :: ustr where "txt_state_vars = [32, 32, 21464, 58, 32]"
definition txt_state_money :: ustr where "txt_state_money = [32, 32, 38065, 58, 32]"
definition txt_state_inv :: ustr where "txt_state_inv = [32, 32, 24211, 58, 32]"
definition txt_state_pity :: ustr where "txt_state_pity = [32, 32, 20445, 58, 32]"
definition txt_state_spent :: ustr where "txt_state_spent = [32, 124, 32, 33457, 58, 32, 165]"

definition float_error :: "pyenv \<Rightarrow> ustr \<Rightarrow> exc" where
  "float_error E s = ValueError (asc ''could not convert string to float: '' @ repr_str E s)"

definition int_error :: "pyenv \<Rightarrow> ustr \<Rightarrow> exc" where
  "int_error E s =
     ValueError (asc ''invalid literal for int() with base 10: '' @ repr_str E s)"

section \<open>The statement handlers\<close>

text \<open>
  A handler returns the exception it raised, if any, and the world it leaves.  The
  handlers raise before they change anything, except the draw loop, whose
  \<open>random.choice\<close> would raise on an empty item list after the counter has moved.
\<close>

type_synonym outcome = "exc option \<times> world"

subsection \<open>Function definitions\<close>

definition split_commas :: "pyenv \<Rightarrow> ustr \<Rightarrow> ustr list" where
  "split_commas E s = (if s \<noteq> [] then map (strip E) (split_on 44 s) else [])"

definition start_function_def :: "pyenv \<Rightarrow> ustr \<Rightarrow> world \<Rightarrow> outcome" where
  "start_function_def E line w =
     (case match_def_header E line of
        None \<Rightarrow> (Some (ValueError msg_def_usage), w)
      | Some (name, inner) \<Rightarrow>
          (None, upd (\<lambda>s. s\<lparr>current_function_name := name,
                              current_function_params := split_commas E (strip E inner),
                              current_function_lines := [],
                              in_function := True\<rparr>) w))"

definition end_function_def :: "world \<Rightarrow> world" where
  "end_function_def w =
     (let s = self w;
          f = \<lparr>func_name = current_function_name s, params = current_function_params s,
               body = current_function_lines s\<rparr>;
          w1 = upd (\<lambda>s. s\<lparr>functions := dict_set (functions s) (current_function_name s) f\<rparr>) w;
          w2 = out_append (tag_func @ [32, 162, 46] @ current_function_name s @ msg_defined) w1
      in upd (\<lambda>s. s\<lparr>in_function := False, current_function_name := [],
                       current_function_params := [], current_function_lines := []\<rparr>) w2)"

subsection \<open>Pool definition\<close>

definition define_pool :: "pyenv \<Rightarrow> ustr \<Rightarrow> world \<Rightarrow> outcome" where
  "define_pool E line w =
     (case search_paren_pct E line of
        None \<Rightarrow> (Some (ValueError msg_pool_usage), w)
      | Some g \<Rightarrow>
          (case py_float E g of
             None \<Rightarrow> (Some (float_error E g), w)
           | Some pct \<Rightarrow>
               (let its = findall_run (is_word E) 36 line in
                if its = [] then (Some (ValueError msg_pool_items), w)
                else (case search_run (is_word E) 35 line of
                        None \<Rightarrow> (Some (ValueError msg_pool_name), w)
                      | Some nm \<Rightarrow>
                          (let p = \<lparr>pool_name = nm, total_prob = pct / 100, items = its\<rparr>;
                               w1 = upd (\<lambda>s. s\<lparr>pools := dict_set (pools s) nm p\<rparr>) w
                           in (None,
                               out_append (tag_pool @ nm @ asc '' | ''
                                           @ repr_float E (total_prob p * 100) @ asc ''% | ''
                                           @ join [44] (map (\<lambda>i. 36 # i) its)) w1))))))"

subsection \<open>Assignment\<close>

definition assign_confirm :: "ustr \<Rightarrow> ustr \<Rightarrow> world \<Rightarrow> outcome" where
  "assign_confirm name value_str w =
     (None, out_append (tag_var @ name @ asc '' = '' @ value_str) w)"

definition set_variable :: "ustr \<Rightarrow> pyval \<Rightarrow> world \<Rightarrow> world" where
  "set_variable name v w = upd (\<lambda>s. s\<lparr>variables := dict_set (variables s) name v\<rparr>) w"

definition assign_variable :: "pyenv \<Rightarrow> ustr \<Rightarrow> world \<Rightarrow> outcome" where
  "assign_variable E line w =
     (case match_assign E line of
        None \<Rightarrow> (Some (ValueError msg_assign_usage), w)
      | Some (name, g) \<Rightarrow>
          (let value_str = strip E g in
           if starts_with [165] value_str then
             (case py_float E (drop 1 value_str) of
                None \<Rightarrow> (Some (float_error E (drop 1 value_str)), w)
              | Some v \<Rightarrow>
                  assign_confirm name value_str
                    (upd (\<lambda>s. s\<lparr>currency := dict_set (currency s) name v\<rparr>) w))
           else if ends_with [47] value_str then
             (case search_pct E value_str of
                None \<Rightarrow> assign_confirm name value_str w
              | Some pg \<Rightarrow>
                  (case py_float E pg of
                     None \<Rightarrow> (Some (float_error E pg), w)
                   | Some v \<Rightarrow>
                       assign_confirm name value_str (set_variable name (VFloat (v / 100)) w)))
           else
             (case py_float E value_str of
                Some v \<Rightarrow> assign_confirm name value_str (set_variable name (VFloat v) w)
              | None \<Rightarrow> assign_confirm name value_str (set_variable name (VStr value_str) w))))"

subsection \<open>Draw / target execution\<close>

text \<open>The local \<open>current_prob\<close> of the loop body, from the pool's base probability and
  the counter after its increment.\<close>

definition current_prob :: "real \<Rightarrow> int \<Rightarrow> real" where
  "current_prob base pc =
     (if pc > 70 then min 1.0 (base + real_of_int (pc - 70) * 0.02) else base)"

datatype loop_exit = Returned | Broke | Exhausted | Raised exc

definition trace_line :: "nat \<Rightarrow> ustr \<Rightarrow> int \<Rightarrow> ustr" where
  "trace_line draw drawn pc =
     txt_nth @ str_int (int draw) @ txt_draw_item @ drawn @ [32]
     @ (if pc > 70 then [91] @ str_int pc @ [93] else [])"

text \<open>
  The \<open>for draw in range(1, max_pity + 1)\<close> loop over the remaining values of
  \<open>draw\<close>.  \<open>Returned\<close> is the \<open>return\<close> on a target hit, \<open>Broke\<close> the \<open>break\<close>
  after another drop, \<open>Exhausted\<close> the end of the range, after which the \<open>else\<close>
  clause of the loop runs.
\<close>

fun draw_loop :: "ustr \<Rightarrow> pool \<Rightarrow> nat \<Rightarrow> nat list \<Rightarrow> world \<Rightarrow> loop_exit \<times> world" where
  "draw_loop target_item pl max_pity [] w = (Exhausted, w)"
| "draw_loop target_item pl max_pity (draw # rest) w =
     (let w1 = upd (\<lambda>s. s\<lparr>pity_counter := pity_counter s + 1\<rparr>) w;
          pc = pity_counter (self w1);
          u = rnd_floats w1 (fpos w1);
          w2 = w1\<lparr>fpos := Suc (fpos w1)\<rparr>
      in if u < current_prob (total_prob pl) pc then
           (if items pl = [] then
              (Raised (IndexError (asc ''Cannot choose from an empty sequence'')), w2)
            else
              (let drawn = items pl ! (rnd_picks w2 (ppos w2) mod length (items pl));
                   w3 = w2\<lparr>ppos := Suc (ppos w2)\<rparr>;
                   w4 = upd (\<lambda>s. s\<lparr>inventory := inventory s @ [drawn]\<rparr>) w3;
                   w5 = (if draw \<le> 3 \<or> drawn = target_item \<or> int draw \<ge> int max_pity - 2
                         then out_append (trace_line draw drawn pc) w4 else w4)
               in if drawn = target_item then
                    (let cost = int draw * 160;
                         w6 = upd (\<lambda>s. s\<lparr>total_spent := total_spent s + cost\<rparr>) w5;
                         w7 = out_append (tag_hit @ target_item @ asc '' | ''
                                          @ str_int (int draw) @ txt_draws_cost
                                          @ str_int cost) w6
                     in (Returned, upd (\<lambda>s. s\<lparr>pity_counter := 0\<rparr>) w7))
                  else (Broke, w5)))
         else draw_loop target_item pl max_pity rest w2)"

definition pity_acquire :: "ustr \<Rightarrow> nat \<Rightarrow> world \<Rightarrow> world" where
  "pity_acquire target_item max_pity w =
     (let w1 = upd (\<lambda>s. s\<lparr>inventory := inventory s @ [target_item]\<rparr>) w;
          cost = int max_pity * 160;
          w2 = upd (\<lambda>s. s\<lparr>total_spent := total_spent s + cost\<rparr>) w1;
          w3 = out_append (tag_pity @ target_item @ asc '' | '' @ str_int (int max_pity)
                           @ txt_draws_cost @ str_int cost) w2
      in upd (\<lambda>s. s\<lparr>pity_counter := 0\<rparr>) w3)"

definition run_draws :: "ustr \<Rightarrow> ustr \<Rightarrow> pool \<Rightarrow> nat \<Rightarrow> nat \<Rightarrow> world \<Rightarrow> outcome" where
  "run_draws target_item pname pl draw_times max_pity w =
     (let w1 = out_append (tag_draw @ target_item @ asc '' | #'' @ pname @ asc '' | ''
                           @ str_int (int draw_times) @ txt_times_cap
                           @ str_int (int max_pity)) w
      in case draw_loop target_item pl max_pity [1..<Suc max_pity] w1 of
           (Exhausted, w2) \<Rightarrow> (None, pity_acquire target_item max_pity w2)
         | (Raised e, w2) \<Rightarrow> (Some e, w2)
         | (_, w2) \<Rightarrow> (None, w2))"

definition execute_target :: "pyenv \<Rightarrow> ustr \<Rightarrow> world \<Rightarrow> outcome" where
  "execute_target E line w =
     (case search_run (is_word E) 36 line of
        None \<Rightarrow> (Some (ValueError msg_target_usage), w)
      | Some target_item \<Rightarrow>
          (case search_run (is_word E) 35 line of
             None \<Rightarrow> (Some (ValueError msg_pool_undefined), w)
           | Some pname \<Rightarrow>
               (case map_of (pools (self w)) pname of
                  None \<Rightarrow> (Some (ValueError msg_pool_undefined), w)
                | Some pl \<Rightarrow>
                    (case (case search_times E line of
                             None \<Rightarrow> Inr 1
                           | Some g \<Rightarrow> (case py_int E g of None \<Rightarrow> Inl g | Some n \<Rightarrow> Inr n)) of
                       Inl g \<Rightarrow> (Some (int_error E g), w)
                     | Inr draw_times \<Rightarrow>
                         (case (case search_run (is_digit E) 42 line of
                                  None \<Rightarrow> Inr 90
                                | Some g \<Rightarrow>
                                    (case py_int E g of None \<Rightarrow> Inl g | Some n \<Rightarrow> Inr n)) of
                            Inl g \<Rightarrow> (Some (int_error E g), w)
                          | Inr max_pity \<Rightarrow>
                              run_draws target_item pname pl draw_times max_pity w)))))"

subsection \<open>Output, expressions, return, state dump\<close>

definition py_str :: "pyenv \<Rightarrow> pyval \<Rightarrow> ustr" where
  "py_str E v = (case v of VFloat x \<Rightarrow> repr_float E x | VStr t \<Rightarrow> t)"

definition replace_var :: "pyenv \<Rightarrow> interp \<Rightarrow> ustr \<Rightarrow> ustr" where
  "replace_var E s var_name =
     (case map_of (variables s) var_name of
        Some val \<Rightarrow>
          (case val of
             VFloat x \<Rightarrow> (if x < 1 then repr_float E (x * 100) @ [37] else repr_float E x)
           | VStr t \<Rightarrow> t)
      | None \<Rightarrow>
          (case map_of (currency s) var_name of
             Some c \<Rightarrow> 165 # repr_float E c
           | None \<Rightarrow> txt_undefined @ var_name @ [93]))"

definition fill_placeholders :: "pyenv \<Rightarrow> interp \<Rightarrow> ustr \<Rightarrow> ustr" where
  "fill_placeholders E s content =
     replace_all (asc ''{pity}'') (str_int (pity_counter s))
       (replace_all (asc ''{total_spent}'') (165 # str_int (total_spent s))
          (replace_all (asc ''{inventory}'') (py_str_list E (inventory s)) content))"

definition handle_output :: "pyenv \<Rightarrow> ustr \<Rightarrow> world \<Rightarrow> world" where
  "handle_output E line w =
     out_append (tag_out @ fill_placeholders E (self w)
                             (sub_run (is_word E) 35 (replace_var E (self w)) (drop 2 line))) w"

definition handle_math :: "pyenv \<Rightarrow> ustr \<Rightarrow> world \<Rightarrow> world" where
  "handle_math E line w =
     (case search_math line of
        None \<Rightarrow> w
      | Some g \<Rightarrow>
          (let e1 = foldl (\<lambda>e (var, val). replace_all (35 # var) (py_str E val) e) g
                      (variables (self w));
               e2 = foldl (\<lambda>e (var, val). replace_all (35 # var) (repr_float E val) e) e1
                      (currency (self w));
               expr = replace_all [247] [47] (replace_all [215] [42] e2)
           in case eval_fmt E expr of
                Some r \<Rightarrow> out_append (tag_calc @ g @ asc '' = '' @ r) w
              | None \<Rightarrow> out_append (tag_calc_error @ expr) w))"

definition handle_return :: "pyenv \<Rightarrow> ustr \<Rightarrow> world \<Rightarrow> world" where
  "handle_return E line w =
     (case match_return E line of
        None \<Rightarrow> w
      | Some g \<Rightarrow> out_append (tag_return @ strip E g) w)"

definition py_dict_repr :: "pyenv \<Rightarrow> (ustr \<times> ustr) list \<Rightarrow> ustr" where
  "py_dict_repr E kvs =
     [123] @ join (asc '', '') (map (\<lambda>(k, v). repr_str E k @ asc '': '' @ v) kvs) @ [125]"

definition display_var :: "pyenv \<Rightarrow> pyval \<Rightarrow> ustr" where
  "display_var E v =
     (case v of
        VFloat x \<Rightarrow> (if x < 1 then repr_str E (repr_float E (x * 100) @ [37])
                     else repr_float E x)
      | VStr t \<Rightarrow> repr_str E t)"

definition get_state :: "pyenv \<Rightarrow> interp \<Rightarrow> ustr" where
  "get_state E s =
     join [10]
       ([replicate 40 9472, txt_state]
        @ (if pools s \<noteq> [] then [txt_state_pools @ py_str_list E (map fst (pools s))] else [])
        @ (if functions s \<noteq> [] then [txt_state_funcs @ py_str_list E (map fst (functions s))]
           else [])
        @ (if variables s \<noteq> []
           then [txt_state_vars
                 @ py_dict_repr E (map (\<lambda>(k, v). (k, display_var E v)) (variables s))]
           else [])
        @ (if currency s \<noteq> []
           then [txt_state_money
                 @ py_dict_repr E (map (\<lambda>(k, v). (k, repr_float E v)) (currency s))]
           else [])
        @ [txt_state_inv @ py_str_list E (inventory s),
           txt_state_pity @ str_int (pity_counter s) @ txt_state_spent
           @ str_int (total_spent s),
           replicate 40 9472])"

section \<open>Dispatch, function calls and the script runner\<close>

text \<open>
  \<open>_call_function\<close> calls \<open>execute\<close>, which calls \<open>_execute_line\<close>, which calls
  \<open>_call_function\<close>.  Nothing in the source bounds this recursion, and the loop over
  the returned output list may not end either, so \<open>execute\<close> takes fuel: the number of
  nested \<open>execute\<close> calls, and of steps of any one loop over output lines, it may spend.
  \<open>None\<close> means the fuel ran out.  The handlers below take the \<open>execute\<close> of the
  next level as \<open>exec\<close>.
\<close>

text \<open>
  \<open>for out in outputs: if not out.startswith(...): self.output_lines.append(...)\<close>.
  A Python list iterator reads the list object at the next index on every step, so
  the loop sees what is appended during it.
\<close>

fun out_loop :: "nat \<Rightarrow> nat \<Rightarrow> nat \<Rightarrow> world \<Rightarrow> world option" where
  "out_loop 0 outputs i w = None"
| "out_loop (Suc k) outputs i w =
     (if i < length (cells w outputs) then
        (let out = cells w outputs ! i in
         out_loop k outputs (Suc i)
           (if \<not> starts_with tag_func out then out_append ([32, 32] @ out) w else w))
      else Some w)"

text \<open>The parameter substitution: \<open>for i, param in enumerate(func.params)\<close> with the
  guard \<open>i < len(args)\<close>.\<close>

fun subst_params :: "ustr list \<Rightarrow> ustr list \<Rightarrow> ustr \<Rightarrow> ustr" where
  "subst_params (p # ps) (a # as) l = subst_params ps as (replace_all (35 # p) a l)"
| "subst_params ps as l = l"

fun body_loop ::
  "pyenv \<Rightarrow> nat \<Rightarrow> (ustr \<Rightarrow> world \<Rightarrow> (nat \<times> world) option) \<Rightarrow> func \<Rightarrow> ustr list
   \<Rightarrow> ustr list \<Rightarrow> world \<Rightarrow> world option" where
  "body_loop E k exec f args [] w = Some w"
| "body_loop E k exec f args (bl # rest) w =
     (let body_line = strip E bl in
      if body_line = [] then body_loop E k exec f args rest w
      else (case exec (subst_params (params f) args body_line) w of
              None \<Rightarrow> None
            | Some (outputs, w1) \<Rightarrow>
                (case out_loop k outputs 0 w1 of
                   None \<Rightarrow> None
                 | Some w2 \<Rightarrow> body_loop E k exec f args rest w2)))"

definition call_function ::
  "pyenv \<Rightarrow> nat \<Rightarrow> (ustr \<Rightarrow> world \<Rightarrow> (nat \<times> world) option) \<Rightarrow> ustr \<Rightarrow> world
   \<Rightarrow> world option" where
  "call_function E k exec line w =
     (case match_name_parens E line of
        None \<Rightarrow> Some w
      | Some (fname, inner, after) \<Rightarrow>
          (let args_str = strip E inner; args = split_commas E args_str in
           case map_of (functions (self w)) fname of
             None \<Rightarrow> Some (out_append (msg_func_undefined @ fname) w)
           | Some f \<Rightarrow>
               body_loop E k exec f args (body f)
                 (out_append (tag_call @ fname @ [40] @ args_str @ [41]) w)))"

definition no_handle_condition :: exc where
  "no_handle_condition =
     AttributeError
       ([39] @ asc ''HPSInterpreter'' @ [39] @ asc '' object has no attribute '' @ [39]
        @ asc ''_handle_condition'' @ [39])"

text \<open>\<open>_execute_line\<close>: the chain of tests in the order of the source.  The class has
  no method \<open>_handle_condition\<close>, so the call in the \<open>?\<close> branch raises.\<close>

definition execute_line ::
  "pyenv \<Rightarrow> nat \<Rightarrow> (ustr \<Rightarrow> world \<Rightarrow> (nat \<times> world) option) \<Rightarrow> ustr \<Rightarrow> world
   \<Rightarrow> outcome option" where
  "execute_line E k exec line w =
     (if in_function (self w) \<and> \<not> starts_with [162, 46] line then
        Some (None, upd (\<lambda>s. s\<lparr>current_function_lines := current_function_lines s @ [line]\<rparr>) w)
      else if starts_with [162, 44] line then Some (None, handle_output E line w)
      else if starts_with [162] line \<and> \<not> starts_with [162, 46] line then
        (let comment = strip E (drop 1 line) in
         Some (None, if comment \<noteq> [] then out_append (tag_note @ comment) w else w))
      else if starts_with [162, 46] line \<and> \<not> contains [162, 46, 69, 110, 100] line then
        (if ends_with [41] line then Some (start_function_def E line w) else Some (None, w))
      else if line = [162, 46, 69, 110, 100] then Some (None, end_function_def w)
      else if is_call_line E line then
        (case call_function E k exec line w of None \<Rightarrow> None | Some w1 \<Rightarrow> Some (None, w1))
      else if starts_with (asc ''return'') line then Some (None, handle_return E line w)
      else if starts_with [40] line then Some (define_pool E line w)
      else if starts_with [35] line \<and> 61 \<in> set line \<and> \<not> starts_with [35, 162] line then
        Some (assign_variable E line w)
      else if starts_with [60] line then Some (execute_target E line w)
      else if starts_with (asc ''&A('') line then Some (None, handle_math E line w)
      else if starts_with [63] line then Some (Some no_handle_condition, w)
      else if line = asc ''/state'' then Some (None, out_append (get_state E (self w)) w)
      else if line = asc ''/reset'' then Some (None, out_append msg_reset (reset w))
      else if line = asc ''exit'' \<or> line = asc ''quit'' then
        Some (None, out_append (asc ''[bye]'') w)
      else Some (None, out_append (msg_unknown @ take 40 line) w))"

text \<open>
  The body of \<open>execute\<close>: a new list object becomes \<open>self.output_lines\<close>; an empty
  line returns another new empty list; otherwise the result is whatever object
  \<open>self.output_lines\<close> refers to when the line has been handled.
\<close>

definition execute_body ::
  "pyenv \<Rightarrow> nat \<Rightarrow> (ustr \<Rightarrow> world \<Rightarrow> (nat \<times> world) option) \<Rightarrow> bool \<Rightarrow> ustr \<Rightarrow> world
   \<Rightarrow> (nat \<times> world) option" where
  "execute_body E k exec show_prompt line0 w =
     (case new_list w of
        (r, w0) \<Rightarrow>
          (let w1 = upd (\<lambda>s. s\<lparr>output_lines := r\<rparr>) w0; line = strip E line0 in
           if line = [] then Some (new_list w1)
           else
             (let w2 = (if show_prompt \<and> \<not> in_function (self w1)
                        then w1\<lparr>stdout := stdout w1 @ [asc ''hps> '' @ line]\<rparr> else w1)
              in case execute_line E k exec line w2 of
                   None \<Rightarrow> None
                 | Some (None, w3) \<Rightarrow> Some (output_lines (self w3), w3)
                 | Some (Some e, w3) \<Rightarrow>
                     (let w4 = out_append (asc ''[!] '' @ exc_msg e) w3
                      in Some (output_lines (self w4), w4)))))"

primrec execute :: "pyenv \<Rightarrow> nat \<Rightarrow> bool \<Rightarrow> ustr \<Rightarrow> world \<Rightarrow> (nat \<times> world) option" where
  "execute E 0 show_prompt line w = None"
| "execute E (Suc n) show_prompt line w =
     execute_body E n (execute E n False) show_prompt line w"

text \<open>
  \<open>run_script\<close>: \<open>run_lines\<close> is the outer \<open>while\<close> loop over the lines still to be
  read and \<open>collect_body\<close> the inner one.  The result holds the exception that left
  \<open>run_script\<close>, if one did.
\<close>

fun run_lines :: "pyenv \<Rightarrow> nat \<Rightarrow> bool \<Rightarrow> ustr list \<Rightarrow> world \<Rightarrow> outcome option"
and collect_body :: "pyenv \<Rightarrow> nat \<Rightarrow> bool \<Rightarrow> ustr list \<Rightarrow> world \<Rightarrow> outcome option" where
  "run_lines E n verbose [] w = Some (None, w)"
| "run_lines E n verbose (x # xs) w =
     (let line = strip E x in
      if line = [] then run_lines E n verbose xs w
      else if starts_with [162, 46] line \<and> \<not> in_function (self w) then
        (case start_function_def E line w of
           (Some e, w1) \<Rightarrow> Some (Some e, w1)
         | (None, w1) \<Rightarrow> collect_body E n verbose xs w1)
      else (case execute E n False line w of
              None \<Rightarrow> None
            | Some (outputs, w1) \<Rightarrow>
                run_lines E n verbose xs
                  (if verbose then w1\<lparr>stdout := stdout w1 @ cells w1 outputs\<rparr> else w1)))"
| "collect_body E n verbose [] w = Some (None, w)"
| "collect_body E n verbose (y # ys) w =
     (let func_line = strip E y in
      if func_line = [162, 46, 69, 110, 100] then run_lines E n verbose ys (end_function_def w)
      else collect_body E n verbose ys
             (upd (\<lambda>s. s\<lparr>current_function_lines := current_function_lines s @ [func_line]\<rparr>) w))"

definition run_script :: "pyenv \<Rightarrow> nat \<Rightarrow> ustr \<Rightarrow> bool \<Rightarrow> world \<Rightarrow> outcome option" where
  "run_script E n code verbose w = run_lines E n verbose (split_on 10 (strip E code)) w"

section \<open>Concrete inputs\<close>

text \<open>
  An environment and an initial world on which the theorems below are instantiated: every
  code point beyond Latin-1 counts as a letter, none as a digit or as white space, and
  the random source always returns the sample 0 and the pick 1.
\<close>

definition E0 :: pyenv where
  "E0 = \<lparr>u_alnum = (\<lambda>c. True), u_decimal = (\<lambda>c. None), u_space = (\<lambda>c. False),
         float_ext = (\<lambda>s. None), repr_float = (\<lambda>x. asc ''0.0''),
         repr_str = (\<lambda>s. [39] @ s @ [39]), eval_fmt = (\<lambda>s. None)\<rparr>"

definition w0 :: world where
  "w0 = new_world (\<lambda>n. 0) (\<lambda>n. 1)"

text \<open>A definition header that is never closed: the marker, \<open>.name(\<close>.\<close>

definition line_open_header :: ustr where
  "line_open_header = [162] @ asc ''.name(''"

text \<open>A script that is the bare terminator, and the assignment \<open>#x = ./\<close>.\<close>

definition script_bare_end :: ustr where
  "script_bare_end = [162] @ asc ''.End''"

definition line_assign_dot :: ustr where
  "line_assign_dot = asc ''#x = ./''"

definition line_assign_abc :: ustr where
  "line_assign_abc = asc ''#x = abc/''"

text \<open>More assignment lines: \<open>#x y = abc/\<close>, whose name is followed by a second
  word, \<open>#x = a.b/\<close>, and \<open>#x = \<yen>/\<close> with the currency marker U+00A5.\<close>

definition line_assign_two_words :: ustr where
  "line_assign_two_words = asc ''#x y = abc/''"

definition line_assign_mid_dot :: ustr where
  "line_assign_mid_dot = asc ''#x = a.b/''"

definition line_assign_yen :: ustr where
  "line_assign_yen = asc ''#x = '' @ [165, 47]"

text \<open>An output line, the marker followed by \<open>,v=#x\<close>, and interpreter fields in
  which \<open>x\<close> is both a plain variable and a currency variable.\<close>

definition line_out :: ustr where
  "line_out = [162, 44] @ asc ''v=#x''"

definition s_demo :: interp where
  "s_demo = (init_interp 0)
     \<lparr>variables := [([120], VFloat (1 / 8)), ([121], VStr [97]), ([119], VFloat 2)],
      currency := [([120], 5), ([122], 7)]\<rparr>"

text \<open>Pool definitions \<open>(100/:$A,$B)#UP\<close> and \<open>( 5/ (60/:$A)#UP\<close>, and the draw
  \<open><$A,#UP,*90>\<close>.\<close>

definition line_pool :: ustr where
  "line_pool = asc ''(100/:$A,$B)#UP''"

definition line_pool_nested :: ustr where
  "line_pool_nested = asc ''( 5/ (60/:$A)#UP''"

definition line_draw :: ustr where
  "line_draw = asc ''<$A,#UP,*90>''"

definition line_draw_b :: ustr where
  "line_draw_b = asc ''<$B,#UP,*90>''"

definition line_reset :: ustr where
  "line_reset = asc ''/reset''"

text \<open>The lines that define and call functions: a header for \<open>f\<close>, the terminator,
  the call \<open>f()\<close>, the empty comment and the comment \<open>hi\<close>.\<close>

definition line_def_f :: ustr where
  "line_def_f = [162] @ asc ''.f()''"

definition line_end :: ustr where
  "line_end = [162] @ asc ''.End''"

definition line_call_f :: ustr where
  "line_call_f = asc ''f()''"

definition line_comment_empty :: ustr where
  "line_comment_empty = [162]"

definition line_comment_hi :: ustr where
  "line_comment_hi = [162] @ asc '' hi''"

section \<open>Auxiliary notions for the statements\<close>

text \<open>A caller that hands statements to \<open>execute\<close> one after another, as the
  interactive loop does, and the world reached from the initial one by such a run.\<close>

fun exec_all :: "pyenv \<Rightarrow> nat \<Rightarrow> ustr list \<Rightarrow> world \<Rightarrow> world option" where
  "exec_all E n [] w = Some w"
| "exec_all E n (l # ls) w =
     (case execute E n False l w of None \<Rightarrow> None | Some (r, w') \<Rightarrow> exec_all E n ls w')"

definition world_after :: "ustr list \<Rightarrow> world" where
  "world_after ls = (case exec_all E0 (Suc 0) ls w0 of None \<Rightarrow> w0 | Some w \<Rightarrow> w)"

text \<open>What a run of statements from the initial world leaves in the counters, and the
  list an \<open>execute\<close> call returned.\<close>

definition pity_after :: "ustr list \<Rightarrow> int option" where
  "pity_after ls = map_option (\<lambda>w. pity_counter (self w)) (exec_all E0 (Suc 0) ls w0)"


definition outputs_of :: "(nat \<times> world) option \<Rightarrow> ustr list option" where
  "outputs_of x = map_option (\<lambda>(r, w). cells w r) x"


text \<open>
  The spec's wording for the effective probability of a draw attempt: the base
  probability while the counter is at most 70, and \<open>min(1, base + 0.02 * d)\<close> at the
  counter \<open>70 + d\<close>.
\<close>

definition spec_effective_prob :: "real \<Rightarrow> int \<Rightarrow> real" where
  "spec_effective_prob base pc =
     (if pc \<le> 70 then base else min 1 (base + 0.02 * real_of_int (pc - 70)))"

text \<open>
  When a line is handled as \<open>/reset\<close>, when it is handled as a draw statement, and
  when it is handed to \<open>_call_function\<close> and names a function of the table: all need
  the top level, since during the collection of a body such lines are only stored.
\<close>

definition resets :: "world \<Rightarrow> ustr \<Rightarrow> bool" where
  "resets w l = (\<not> in_function (self w) \<and> l = asc ''/reset'')"

definition draws :: "world \<Rightarrow> ustr \<Rightarrow> bool" where
  "draws w l = (\<not> in_function (self w) \<and> starts_with [60] l)"

definition calls_defined :: "pyenv \<Rightarrow> world \<Rightarrow> ustr \<Rightarrow> bool" where
  "calls_defined E w l =
     (\<not> in_function (self w) \<and> is_call_line E l
      \<and> (case match_name_parens E l of
            None \<Rightarrow> False
          | Some (fname, inner, after) \<Rightarrow> map_of (functions (self w)) fname \<noteq> None))"

text \<open>Whether \<open>.\<close> stands directly before a \<open>/\<close> somewhere in a string.\<close>

definition dot_before_slash :: "ustr \<Rightarrow> bool" where
  "dot_before_slash v = contains [46, 47] v"

text \<open>
  The spec's wording for the percent of a pool definition, ``the first floating-point
  literal immediately followed by \<open>/\<close>'': the leftmost run of digits and dots that a
  slash follows, wherever it stands in the line.
\<close>

definition spec_percent_literal :: "pyenv \<Rightarrow> ustr \<Rightarrow> ustr option" where
  "spec_percent_literal E line = search_pct E line"

text \<open>
  The attempt at which a draw sequence drops: \<open>first_drop rnd base pc f d m\<close> is the
  first draw index, among the \<open>m\<close> indices from \<open>d\<close> on, at which the sample is below
  the effective probability, the counter standing at \<open>pc\<close> and the next sample at
  position \<open>f\<close> before that attempt; \<open>None\<close> when no attempt drops.
\<close>

fun first_drop :: "(nat \<Rightarrow> real) \<Rightarrow> real \<Rightarrow> int \<Rightarrow> nat \<Rightarrow> nat \<Rightarrow> nat \<Rightarrow> nat option" where
  "first_drop rnd base pc f d 0 = None"
| "first_drop rnd base pc f d (Suc m) =
     (if rnd f < current_prob base (pc + 1) then Some d
      else first_drop rnd base (pc + 1) (Suc f) (Suc d) m)"

text \<open>The world in which \<open>_execute_line\<close> starts when \<open>execute\<close> is called on a
  line that is not blank: \<open>self.output_lines\<close> refers to a new empty list, and the
  prompt has been printed if asked for.\<close>

definition enter :: "pyenv \<Rightarrow> bool \<Rightarrow> ustr \<Rightarrow> world \<Rightarrow> world" where
  "enter E show_prompt line w =
     (let w1 = upd (\<lambda>s. s\<lparr>output_lines := nxt w\<rparr>) (snd (new_list w)) in
      if show_prompt \<and> \<not> in_function (self w1)
      then w1\<lparr>stdout := stdout w1 @ [asc ''hps> '' @ strip E line]\<rparr> else w1)"

text \<open>An output list that holds a line other than a definition confirmation: the
  loop of \<open>_call_function\<close> over such a list appends to it.\<close>

definition noisy :: "world \<Rightarrow> bool" where
  "noisy w = (\<not> list_all (starts_with tag_func) (cells w (output_lines (self w))))"



section \<open>Basic facts about the state operations\<close>

lemma self_upd [simp]: "self (upd f w) = f (self w)"
  by (simp add: upd_def)

lemma upd_other [simp]:
  "cells (upd f w) = cells w" "nxt (upd f w) = nxt w" "fpos (upd f w) = fpos w"
  "ppos (upd f w) = ppos w" "rnd_floats (upd f w) = rnd_floats w"
  "rnd_picks (upd f w) = rnd_picks w" "stdout (upd f w) = stdout w"
  by (simp_all add: upd_def)

lemma self_out_append [simp]: "self (out_append s w) = self w"
  by (simp add: out_append_def)

lemma out_append_other [simp]:
  "nxt (out_append s w) = nxt w" "fpos (out_append s w) = fpos w"
  "ppos (out_append s w) = ppos w" "rnd_floats (out_append s w) = rnd_floats w"
  "rnd_picks (out_append s w) = rnd_picks w" "stdout (out_append s w) = stdout w"
  by (simp_all add: out_append_def)

lemma cells_out_append:
  "cells (out_append s w) =
     (cells w)(output_lines (self w) := cells w (output_lines (self w)) @ [s])"
  by (simp add: out_append_def)

lemma starts_with_Nil [simp]: "starts_with [] s = True"
  by (simp add: starts_with_def)

lemma starts_with_Cons_Nil [simp]: "starts_with (a # p) [] = False"
  by (simp add: starts_with_def)

lemma starts_with_Cons_Cons [simp]:
  "starts_with (a # p) (c # cs) = (c = a \<and> starts_with p cs)"
  by (auto simp add: starts_with_def)

lemma starts_with_2: "starts_with [a, b] s = (\<exists>r. s = a # b # r)"
  by (cases s; simp; cases "tl s"; auto)

section \<open>Entering \<open>execute\<close> and reaching the assignment handler\<close>

lemma enter_simps [simp]:
  "self (enter E sp line w) = (self w)\<lparr>output_lines := nxt w\<rparr>"
  "cells (enter E sp line w) = (cells w)(nxt w := [])"
  "nxt (enter E sp line w) = Suc (nxt w)"
  "fpos (enter E sp line w) = fpos w" "ppos (enter E sp line w) = ppos w"
  "rnd_floats (enter E sp line w) = rnd_floats w" "rnd_picks (enter E sp line w) = rnd_picks w"
  by (simp_all add: enter_def new_list_def upd_def Let_def)

lemma execute_Suc:
  "strip E line \<noteq> [] \<Longrightarrow>
   execute E (Suc n) sp line w =
     (case execute_line E n (execute E n False) (strip E line) (enter E sp line w) of
        None \<Rightarrow> None
      | Some (None, w3) \<Rightarrow> Some (output_lines (self w3), w3)
      | Some (Some e, w3) \<Rightarrow>
          Some (output_lines (self w3), out_append (asc ''[!] '' @ exc_msg e) w3))"
  by (auto simp add: execute_body_def new_list_def Let_def enter_def
        split: option.splits prod.splits)

declare execute.simps [simp del]

lemma not_word_markers [simp]:
  "\<not> is_word E 35" "\<not> is_word E 162" "\<not> is_word E 40" "\<not> is_word E 60" "\<not> is_word E 36"
  by (simp_all add: is_word_def)

lemma match_name_parens_nonword:
  "\<not> is_word E c \<Longrightarrow> match_name_parens E (c # cs) = None"
  by (simp add: match_name_parens_def)

lemma is_call_line_nonword [simp]:
  "\<not> is_word E c \<Longrightarrow> \<not> is_call_line E (c # cs)"
  by (simp add: is_call_line_def match_name_parens_nonword)

lemma asc_return: "asc ''return'' = [114, 101, 116, 117, 114, 110]"
  by (simp add: asc_def)

lemma match_assign_shape:
  assumes "match_assign E l = Some (name, g)"
  shows "\<exists>c cs. l = 35 # c # cs \<and> is_word E c \<and> 61 \<in> set cs \<and> name = takeWhile (is_word E) (c # cs)"
proof -
  from assms obtain l' where l: "l = 35 # l'" and nm: "takeWhile (is_word E) l' \<noteq> []"
    and n2: "name = takeWhile (is_word E) l'"
    and d: "\<exists>r. dropWhile (is_space E) (dropWhile (is_word E) l') = 61 # r"
    by (auto simp: match_assign_def split: list.splits if_splits option.splits)
  from nm obtain c cs where l': "l' = c # cs" and w: "is_word E c"
    by (cases l') (auto split: if_splits)
  from d have "61 \<in> set (dropWhile (is_space E) (dropWhile (is_word E) l'))" by auto
  then have "61 \<in> set l'" by (meson set_dropWhileD)
  moreover have "c \<noteq> 61" using w by (auto simp: is_word_def)
  ultimately have "61 \<in> set cs" using l' by auto
  with l l' w n2 show ?thesis by blast
qed

text \<open>Facts for evaluating the string functions and the initial world on concrete
  input.\<close>

lemmas str_eval = strip_def lstrip_def rstrip_def is_space_def is_word_def asc_def
  ends_with_def is_dd_def is_digit_def digit_val_def is_call_line_def match_name_parens_def
  E0_def

lemmas cls_eval = is_space_def is_word_def is_dd_def is_digit_def digit_val_def E0_def

lemmas w0_eval = w0_def new_world_def init_interp_def

section \<open>Malformed definition headers\<close>

text \<open>
  C10.  At top level (no body is being collected) a line that, once stripped, starts
  with the definition marker, does not contain the terminator and does not end with a
  closing parenthesis is ignored: \<open>execute\<close> returns an empty list and every field of
  the interpreter keeps its value; only the reference \<open>output_lines\<close> now points to that
  new empty list, as it does at the start of every \<open>execute\<close>.
\<close>

theorem C10_malformed_header_ignored:
  assumes "\<not> in_function (self w)"
    and "starts_with [162, 46] (strip E line)"
    and "\<not> contains [162, 46, 69, 110, 100] (strip E line)"
    and "\<not> ends_with [41] (strip E line)"
  shows "\<exists>r w'. execute E (Suc n) sp line w = Some (r, w') \<and> cells w' r = []
           \<and> self w' = (self w)\<lparr>output_lines := r\<rparr>"
proof -
  from assms(2) obtain rest where l: "strip E line = 162 # 46 # rest"
    by (auto simp: starts_with_2)
  have ne: "strip E line \<noteq> []"
    using l by simp
  have "execute_line E n (execute E n False) (strip E line) (enter E sp line w)
        = Some (None, enter E sp line w)"
    using assms(1,3,4) by (simp add: l execute_line_def)
  then show ?thesis
    by (simp add: execute_Suc [OF ne])
qed

theorem C10_malformed_header_ignored_witness:
  "\<not> in_function (self w0)
   \<and> starts_with [162, 46] (strip E0 line_open_header)
   \<and> \<not> contains [162, 46, 69, 110, 100] (strip E0 line_open_header)
   \<and> \<not> ends_with [41] (strip E0 line_open_header)
   \<and> (\<exists>r w'. execute E0 (Suc 0) False line_open_header w0 = Some (r, w')
         \<and> cells w' r = [] \<and> self w' = (self w0)\<lparr>output_lines := r\<rparr>)"
proof -
  have s: "strip E0 line_open_header = [162, 46, 110, 97, 109, 101, 40]"
    by (simp add: line_open_header_def strip_def lstrip_def rstrip_def is_space_def asc_def)
  have h1: "\<not> in_function (self w0)"
    by (simp add: w0_def new_world_def init_interp_def)
  have h2: "starts_with [162, 46] (strip E0 line_open_header)"
    by (simp add: s)
  have h3: "\<not> contains [162, 46, 69, 110, 100] (strip E0 line_open_header)"
    by (simp add: s)
  have h4: "\<not> ends_with [41] (strip E0 line_open_header)"
    by (simp add: s ends_with_def)
  from C10_malformed_header_ignored [OF h1 h2 h3 h4, of 0 False] h1 h2 h3 h4
  show ?thesis by blast
qed

section \<open>The script runner lets an exception escape\<close>

text \<open>
  C2.  \<open>run_script\<close> calls \<open>_start_function_def\<close> itself, outside the \<open>try\<close> of
  \<open>execute\<close>: on a script that is the bare terminator, and on one that is an unclosed
  header, the \<open>ValueError\<close> of \<open>_start_function_def\<close> leaves \<open>run_script\<close>, and
  nothing has been printed.
\<close>

theorem C2_run_script_lets_exception_escape:
  "run_script E0 n script_bare_end verbose w0 = Some (Some (ValueError msg_def_usage), w0)
   \<and> run_script E0 n line_open_header verbose w0 = Some (Some (ValueError msg_def_usage), w0)"
  by (simp add: run_script_def script_bare_end_def line_open_header_def strip_def lstrip_def
        rstrip_def is_space_def asc_def start_function_def_def match_def_header_def
        match_name_parens_def is_word_def w0_def new_world_def init_interp_def)

section \<open>Output rendering\<close>

text \<open>How the scanners treat a run of class characters followed by something else.\<close>

lemma take_drop_run:
  "list_all P name \<Longrightarrow> post = [] \<or> \<not> P (hd post) \<Longrightarrow>
   takeWhile P (name @ post) = name \<and> dropWhile P (name @ post) = post"
  by (induction name) (auto simp: takeWhile_eq_Nil_iff dropWhile_eq_self_iff)

lemma sub_run_skip:
  "m \<notin> set pre \<Longrightarrow> sub_run P m f (pre @ s) = pre @ sub_run P m f s"
  by (induction pre) auto

lemma sub_run_token:
  assumes "name \<noteq> []" "list_all P name" "post = [] \<or> \<not> P (hd post)"
  shows "sub_run P m f (m # name @ post) = f name @ sub_run P m f post"
  using take_drop_run [OF assms(2,3)] assms(1) by simp

lemma replace_var_output_lines [simp]:
  "replace_var E (s\<lparr>output_lines := r\<rparr>) = replace_var E s"
  by (rule ext) (simp add: replace_var_def split: option.splits)

lemma fill_placeholders_output_lines [simp]:
  "fill_placeholders E (s\<lparr>output_lines := r\<rparr>) = fill_placeholders E s"
  by (rule ext) (simp add: fill_placeholders_def)

text \<open>
  C8.  At top level an output statement never fails: \<open>execute\<close> returns exactly one
  line, the output tag followed by the content in which the \<open>#name\<close> tokens and then
  the three placeholders have been substituted, and changes no field of the interpreter
  (\<open>output_lines\<close> aside).  A token \<open>#name\<close> that is preceded by text without \<open>#\<close>
  and followed by the end or by a non-word character is replaced by the rendering of
  \<open>name\<close>, and the rest is treated likewise.  The rendering looks in the plain variables
  first: a float below 1 gives the percentage form, any other float its own text, a
  string itself, whether or not the name is also a currency variable; only a name absent
  from the plain variables is looked up in the currency variables and rendered with the
  yen sign; a name in neither gives the placeholder text.
\<close>

theorem C8_output_rendering:
  "(\<not> in_function (self w) \<and> starts_with [162, 44] (strip E line) \<longrightarrow>
      (\<exists>r w'. execute E (Suc n) sp line w = Some (r, w')
         \<and> cells w' r =
             [tag_out @ fill_placeholders E (self w)
                (sub_run (is_word E) 35 (replace_var E (self w)) (drop 2 (strip E line)))]
         \<and> self w' = (self w)\<lparr>output_lines := r\<rparr>))
   \<and> (35 \<notin> set pre \<and> name \<noteq> [] \<and> list_all (is_word E) name
        \<and> (post = [] \<or> \<not> is_word E (hd post)) \<longrightarrow>
      sub_run (is_word E) 35 (replace_var E s) (pre @ 35 # name @ post)
        = pre @ replace_var E s name @ sub_run (is_word E) 35 (replace_var E s) post)
   \<and> (map_of (variables s) name = Some (VFloat x) \<and> x < 1 \<longrightarrow>
      replace_var E s name = repr_float E (x * 100) @ [37])
   \<and> (map_of (variables s) name = Some (VFloat x) \<and> \<not> x < 1 \<longrightarrow>
      replace_var E s name = repr_float E x)
   \<and> (map_of (variables s) name = Some (VStr t) \<longrightarrow> replace_var E s name = t)
   \<and> (map_of (variables s) name = None \<and> map_of (currency s) name = Some c \<longrightarrow>
      replace_var E s name = 165 # repr_float E c)
   \<and> (map_of (variables s) name = None \<and> map_of (currency s) name = None \<longrightarrow>
      replace_var E s name = txt_undefined @ name @ [93])"
proof (intro conjI impI)
  assume a: "\<not> in_function (self w) \<and> starts_with [162, 44] (strip E line)"
  then obtain rest where l: "strip E line = 162 # 44 # rest"
    by (auto simp: starts_with_2)
  have ne: "strip E line \<noteq> []" using l by simp
  have "execute_line E n (execute E n False) (strip E line) (enter E sp line w)
        = Some (None, handle_output E (strip E line) (enter E sp line w))"
    using a by (simp add: l execute_line_def)
  then show "\<exists>r w'. execute E (Suc n) sp line w = Some (r, w')
         \<and> cells w' r =
             [tag_out @ fill_placeholders E (self w)
                (sub_run (is_word E) 35 (replace_var E (self w)) (drop 2 (strip E line)))]
         \<and> self w' = (self w)\<lparr>output_lines := r\<rparr>"
    by (simp add: execute_Suc [OF ne] handle_output_def cells_out_append)
next
  assume "35 \<notin> set pre \<and> name \<noteq> [] \<and> list_all (is_word E) name
        \<and> (post = [] \<or> \<not> is_word E (hd post))"
  then show "sub_run (is_word E) 35 (replace_var E s) (pre @ 35 # name @ post)
        = pre @ replace_var E s name @ sub_run (is_word E) 35 (replace_var E s) post"
    by (simp add: sub_run_skip sub_run_token del: sub_run.simps)
qed (simp_all add: replace_var_def)

theorem C8_output_rendering_witness:
  "\<not> in_function (self w0) \<and> starts_with [162, 44] (strip E0 line_out)
   \<and> (\<exists>r w'. execute E0 (Suc 0) False line_out w0 = Some (r, w')
         \<and> cells w' r =
             [tag_out @ fill_placeholders E0 (self w0)
                (sub_run (is_word E0) 35 (replace_var E0 (self w0)) (drop 2 (strip E0 line_out)))]
         \<and> self w' = (self w0)\<lparr>output_lines := r\<rparr>)
   \<and> (35::nat) \<notin> set [118, 61] \<and> [120] \<noteq> [] \<and> list_all (is_word E0) [120]
   \<and> sub_run (is_word E0) 35 (replace_var E0 s_demo) ([118, 61] @ 35 # [120] @ [])
        = [118, 61] @ replace_var E0 s_demo [120] @ sub_run (is_word E0) 35 (replace_var E0 s_demo) []
   \<and> map_of (variables s_demo) [120] = Some (VFloat (1 / 8)) \<and> (1 / 8 :: real) < 1
   \<and> map_of (currency s_demo) [120] = Some 5
   \<and> replace_var E0 s_demo [120] = repr_float E0 (1 / 8 * 100) @ [37]
   \<and> map_of (variables s_demo) [119] = Some (VFloat 2) \<and> \<not> (2 :: real) < 1
   \<and> replace_var E0 s_demo [119] = repr_float E0 2
   \<and> map_of (variables s_demo) [121] = Some (VStr [97])
   \<and> replace_var E0 s_demo [121] = [97]
   \<and> map_of (variables s_demo) [122] = None \<and> map_of (currency s_demo) [122] = Some 7
   \<and> replace_var E0 s_demo [122] = 165 # repr_float E0 7
   \<and> map_of (variables s_demo) [113] = None \<and> map_of (currency s_demo) [113] = None
   \<and> replace_var E0 s_demo [113] = txt_undefined @ [113] @ [93]"
proof -
  have h1: "\<not> in_function (self w0) \<and> starts_with [162, 44] (strip E0 line_out)"
    by (simp add: w0_eval str_eval line_out_def)
  have h2: "(35::nat) \<notin> set [118, 61] \<and> [120] \<noteq> [] \<and> list_all (is_word E0) [120]
            \<and> (([] :: ustr) = [] \<or> \<not> is_word E0 (hd []))"
    by (simp add: str_eval)
  have h3: "map_of (variables s_demo) [120] = Some (VFloat (1 / 8)) \<and> (1 / 8 :: real) < 1"
    by (simp add: s_demo_def init_interp_def)
  have h3': "map_of (currency s_demo) [120] = Some 5"
    by (simp add: s_demo_def init_interp_def)
  have h4: "map_of (variables s_demo) [119] = Some (VFloat 2) \<and> \<not> (2 :: real) < 1"
    by (simp add: s_demo_def init_interp_def)
  have h5: "map_of (variables s_demo) [121] = Some (VStr [97])"
    by (simp add: s_demo_def init_interp_def)
  have h6: "map_of (variables s_demo) [122] = None \<and> map_of (currency s_demo) [122] = Some 7"
    by (simp add: s_demo_def init_interp_def)
  have h7: "map_of (variables s_demo) [113] = None \<and> map_of (currency s_demo) [113] = None"
    by (simp add: s_demo_def init_interp_def)
  note a = C8_output_rendering [where w = w0 and E = E0 and line = line_out and n = 0
      and sp = False and pre = "[118, 61]" and name = "[120]" and post = "[]" and s = s_demo
      and x = "1 / 8"]
  note b = C8_output_rendering [where E = E0 and s = s_demo and name = "[119]" and x = 2]
  note c = C8_output_rendering [where E = E0 and s = s_demo and name = "[121]" and t = "[97]"]
  note d = C8_output_rendering [where E = E0 and s = s_demo and name = "[122]" and c = 7]
  note e = C8_output_rendering [where E = E0 and s = s_demo and name = "[113]"]
  have p1: "\<exists>r w'. execute E0 (Suc 0) False line_out w0 = Some (r, w')
         \<and> cells w' r =
             [tag_out @ fill_placeholders E0 (self w0)
                (sub_run (is_word E0) 35 (replace_var E0 (self w0)) (drop 2 (strip E0 line_out)))]
         \<and> self w' = (self w0)\<lparr>output_lines := r\<rparr>"
    using a h1 by blast
  have p2: "sub_run (is_word E0) 35 (replace_var E0 s_demo) ([118, 61] @ 35 # [120] @ [])
        = [118, 61] @ replace_var E0 s_demo [120] @ sub_run (is_word E0) 35 (replace_var E0 s_demo) []"
    using a h2 by blast
  have p3: "replace_var E0 s_demo [120] = repr_float E0 (1 / 8 * 100) @ [37]"
    using a h3 by blast
  have p4: "replace_var E0 s_demo [119] = repr_float E0 2"
    using b h4 by blast
  have p5: "replace_var E0 s_demo [121] = [97]"
    using c h5 by blast
  have p6: "replace_var E0 s_demo [122] = 165 # repr_float E0 7"
    using d h6 by blast
  have p7: "replace_var E0 s_demo [113] = txt_undefined @ [113] @ [93]"
    using e h7 by blast
  from h1 h2 h3 h3' h4 h5 h6 h7 p1 p2 p3 p4 p5 p6 p7 show ?thesis
    by blast
qed

section \<open>Pool definitions\<close>

lemma findall_run_skip:
  "m \<notin> set pre \<Longrightarrow> findall_run P m (pre @ s) = findall_run P m s"
  by (induction pre) auto

lemma findall_run_token:
  assumes "name \<noteq> []" "list_all P name" "post = [] \<or> \<not> P (hd post)"
  shows "findall_run P m (m # name @ post) = name # findall_run P m post"
  using take_drop_run [OF assms(2,3)] assms(1) by simp

lemma findall_run_join:
  assumes "list_all (\<lambda>i. i \<noteq> [] \<and> list_all P i) its" "\<not> P sep"
    and "post = [] \<or> \<not> P (hd post)" and "sep \<noteq> m"
  shows "findall_run P m (join [sep] (map (\<lambda>i. m # i) its) @ post)
         = its @ findall_run P m post"
  using assms(1)
proof (induction its rule: induct_list012)
  case 1
  then show ?case by simp
next
  case (2 x)
  then show ?case
    using findall_run_token [of x P post m] assms(3) by simp
next
  case (3 x y zs)
  have "findall_run P m (m # x @ (sep # join [sep] (map (\<lambda>i. m # i) (y # zs)) @ post))
        = x # findall_run P m (sep # join [sep] (map (\<lambda>i. m # i) (y # zs)) @ post)"
    using 3(3) assms(2) by (intro findall_run_token) simp_all
  moreover have "findall_run P m (sep # join [sep] (map (\<lambda>i. m # i) (y # zs)) @ post)
        = findall_run P m (join [sep] (map (\<lambda>i. m # i) (y # zs)) @ post)"
    using assms(4) by simp
  ultimately show ?case
    using 3 by simp
qed

lemma map_of_dict_set: "map_of (dict_set d k v) k = Some v"
  by (induction d) auto

lemma search_paren_pct_shape:
  "search_paren_pct E l = Some g \<Longrightarrow>
   g \<noteq> [] \<and> list_all (is_dd E) g \<and> (\<exists>pre post. l = pre @ 40 # g @ 47 # post)"
proof (induction l)
  case Nil
  then show ?case by simp
next
  case (Cons c cs)
  show ?case
  proof (cases "c = 40 \<and> takeWhile (is_dd E) cs \<noteq> [] \<and> slash_next (dropWhile (is_dd E) cs)")
    case True
    then have g: "g = takeWhile (is_dd E) cs" using Cons.prems by simp
    from True obtain post where p: "dropWhile (is_dd E) cs = 47 # post"
      by (auto simp: slash_next_def split: list.splits)
    have "cs = g @ 47 # post"
      using takeWhile_dropWhile_id [of "is_dd E" cs] g p by simp
    then have "\<exists>pre post. c # cs = pre @ 40 # g @ 47 # post"
      using True by (intro exI [of _ "[]"] exI [of _ post]) simp
    moreover have "list_all (is_dd E) g"
      unfolding g by (simp add: list_all_iff) (meson set_takeWhileD)
    moreover have "g \<noteq> []" using True g by simp
    ultimately show ?thesis by blast
  next
    case False
    then have "search_paren_pct E cs = Some g" using Cons.prems by auto
    from Cons.IH [OF this] obtain pre post where
      "g \<noteq> []" "list_all (is_dd E) g" "cs = pre @ 40 # g @ 47 # post" by blast
    then have "c # cs = (c # pre) @ 40 # g @ 47 # post" by simp
    with \<open>g \<noteq> []\<close> \<open>list_all (is_dd E) g\<close> show ?thesis by blast
  qed
qed

lemma dispatch_pool:
  "\<not> in_function (self w) \<Longrightarrow>
   execute_line E k exec (40 # cs) w = Some (define_pool E (40 # cs) w)"
  by (simp add: execute_line_def asc_return)

text \<open>
  C7, as the code has it.  At top level, for a line that starts with \<open>(\<close>: the
  percent is the first run of digits and dots that directly follows an opening
  parenthesis and is directly followed by \<open>/\<close>.  If there is none, if \<open>float\<close> rejects
  the run, if the line has no \<open>$\<close> token or no \<open>#\<close> token, \<open>execute\<close> returns one
  diagnostic line and no field of the interpreter changes (\<open>output_lines\<close> aside).
  Otherwise exactly the pool table changes: under the name of the first \<open>#\<close> token it
  holds the pool with the percent divided by 100 and the \<open>$\<close> tokens of the line, and
  one confirmation line is returned.  The \<open>$\<close> tokens are read from left to right with
  their duplicates: a line that writes the items \<open>its\<close> as \<open>$i\<close> separated by commas
  gives back \<open>its\<close>.
\<close>

theorem C7_pool_definition:
  assumes "\<not> in_function (self w)" and "starts_with [40] (strip E line)"
  shows "\<exists>r w'. execute E (Suc n) sp line w = Some (r, w')
     \<and> (search_paren_pct E (strip E line) = None \<longrightarrow>
          cells w' r = [asc ''[!] '' @ msg_pool_usage]
          \<and> self w' = (self w)\<lparr>output_lines := r\<rparr>)
     \<and> (search_paren_pct E (strip E line) = Some g \<longrightarrow>
          g \<noteq> [] \<and> list_all (is_dd E) g
          \<and> (\<exists>pre post. strip E line = pre @ 40 # g @ 47 # post))
     \<and> (search_paren_pct E (strip E line) = Some g \<and> py_float E g = None \<longrightarrow>
          cells w' r = [asc ''[!] '' @ exc_msg (float_error E g)]
          \<and> self w' = (self w)\<lparr>output_lines := r\<rparr>)
     \<and> (search_paren_pct E (strip E line) = Some g \<and> py_float E g = Some pct
          \<and> findall_run (is_word E) 36 (strip E line) = [] \<longrightarrow>
          cells w' r = [asc ''[!] '' @ msg_pool_items]
          \<and> self w' = (self w)\<lparr>output_lines := r\<rparr>)
     \<and> (search_paren_pct E (strip E line) = Some g \<and> py_float E g = Some pct
          \<and> findall_run (is_word E) 36 (strip E line) \<noteq> []
          \<and> search_run (is_word E) 35 (strip E line) = None \<longrightarrow>
          cells w' r = [asc ''[!] '' @ msg_pool_name]
          \<and> self w' = (self w)\<lparr>output_lines := r\<rparr>)
     \<and> (search_paren_pct E (strip E line) = Some g \<and> py_float E g = Some pct
          \<and> findall_run (is_word E) 36 (strip E line) \<noteq> []
          \<and> search_run (is_word E) 35 (strip E line) = Some nm \<longrightarrow>
          map_of (pools (self w')) nm
            = Some \<lparr>pool_name = nm, total_prob = pct / 100,
                    items = findall_run (is_word E) 36 (strip E line)\<rparr>
          \<and> self w' = (self w)
               \<lparr>pools := dict_set (pools (self w)) nm
                           \<lparr>pool_name = nm, total_prob = pct / 100,
                            items = findall_run (is_word E) 36 (strip E line)\<rparr>,
                output_lines := r\<rparr>
          \<and> length (cells w' r) = 1 \<and> starts_with tag_pool (hd (cells w' r)))
     \<and> (list_all (\<lambda>i. i \<noteq> [] \<and> list_all (is_word E) i) its \<and> 36 \<notin> set pre'
          \<and> 36 \<notin> set post' \<and> (post' = [] \<or> \<not> is_word E (hd post')) \<longrightarrow>
          findall_run (is_word E) 36 (pre' @ join [44] (map (\<lambda>i. 36 # i) its) @ post') = its)"
proof -
  from assms(2) obtain cs where l: "strip E line = 40 # cs"
    by (cases "strip E line") auto
  have ne: "strip E line \<noteq> []" using l by simp
  have d: "execute_line E n (execute E n False) (strip E line) (enter E sp line w)
           = Some (define_pool E (strip E line) (enter E sp line w))"
    unfolding l using assms(1) by (intro dispatch_pool) simp
  have rt: "list_all (\<lambda>i. i \<noteq> [] \<and> list_all (is_word E) i) its \<and> 36 \<notin> set pre'
          \<and> 36 \<notin> set post' \<and> (post' = [] \<or> \<not> is_word E (hd post')) \<longrightarrow>
          findall_run (is_word E) 36 (pre' @ join [44] (map (\<lambda>i. 36 # i) its) @ post') = its"
  proof
    assume a: "list_all (\<lambda>i. i \<noteq> [] \<and> list_all (is_word E) i) its \<and> 36 \<notin> set pre'
          \<and> 36 \<notin> set post' \<and> (post' = [] \<or> \<not> is_word E (hd post'))"
    have w44: "\<not> is_word E 44" by (simp add: is_word_def)
    have "findall_run (is_word E) 36 post' = []"
      using findall_run_skip [of 36 post' "is_word E" "[]"] a by simp
    then show "findall_run (is_word E) 36 (pre' @ join [44] (map (\<lambda>i. 36 # i) its) @ post') = its"
      using a findall_run_join [of "is_word E" its 44 post' 36] w44
      by (simp add: findall_run_skip)
  qed
  have sh: "search_paren_pct E (strip E line) = Some g \<longrightarrow>
          g \<noteq> [] \<and> list_all (is_dd E) g
          \<and> (\<exists>pre post. strip E line = pre @ 40 # g @ 47 # post)"
    using search_paren_pct_shape by blast
  show ?thesis
  proof (cases "search_paren_pct E (strip E line)")
    case None
    then show ?thesis
      using rt by (auto simp add: execute_Suc [OF ne] d define_pool_def cells_out_append)
  next
    case (Some g')
    note shp = search_paren_pct_shape [OF Some]
    show ?thesis
    proof (cases "py_float E g'")
      case None
      then show ?thesis
        using rt Some shp
        by (auto simp add: execute_Suc [OF ne] d define_pool_def cells_out_append)
    next
      case pf: (Some pct')
      show ?thesis
      proof (cases "findall_run (is_word E) 36 (strip E line) = []")
        case True
        then show ?thesis
          using rt Some shp pf
          by (auto simp add: execute_Suc [OF ne] d define_pool_def cells_out_append)
      next
        case False
        show ?thesis
        proof (cases "search_run (is_word E) 35 (strip E line)")
          case None
          then show ?thesis
            using rt Some shp pf False
            by (auto simp add: execute_Suc [OF ne] d define_pool_def cells_out_append)
        next
          case nm: (Some nm')
          then show ?thesis
            using rt Some shp pf False
            by (auto simp add: execute_Suc [OF ne] d define_pool_def cells_out_append
                Let_def map_of_dict_set tag_pool_def)
        qed
      qed
    qed
  qed
qed

theorem C7_pool_definition_witness:
  "\<not> in_function (self w0) \<and> starts_with [40] (strip E0 line_pool)
   \<and> search_paren_pct E0 (strip E0 line_pool) = Some [49, 48, 48]
   \<and> py_float E0 [49, 48, 48] = Some 100
   \<and> findall_run (is_word E0) 36 (strip E0 line_pool) = [[65], [66]]
   \<and> search_run (is_word E0) 35 (strip E0 line_pool) = Some [85, 80]
   \<and> (\<exists>r w'. execute E0 (Suc 0) False line_pool w0 = Some (r, w')
         \<and> map_of (pools (self w')) [85, 80]
             = Some \<lparr>pool_name = [85, 80], total_prob = 100 / 100, items = [[65], [66]]\<rparr>
         \<and> length (cells w' r) = 1 \<and> starts_with tag_pool (hd (cells w' r)))
   \<and> list_all (\<lambda>i. i \<noteq> [] \<and> list_all (is_word E0) i) [[65], [66], [65]]
   \<and> (36::nat) \<notin> set [40] \<and> (36::nat) \<notin> set [41]
   \<and> findall_run (is_word E0) 36 ([40] @ join [44] (map (\<lambda>i. 36 # i) [[65], [66], [65]]) @ [41])
       = [[65], [66], [65]]"
proof -
  have s: "strip E0 line_pool = [40, 49, 48, 48, 47, 58, 36, 65, 44, 36, 66, 41, 35, 85, 80]"
    by (simp add: str_eval line_pool_def)
  have h1: "\<not> in_function (self w0)" by (simp add: w0_eval)
  have h2: "starts_with [40] (strip E0 line_pool)" by (simp add: s)
  have k1: "search_paren_pct E0 (strip E0 line_pool) = Some [49, 48, 48]"
    unfolding s by (simp add: cls_eval slash_next_def)
  have k2: "py_float E0 [49, 48, 48] = Some 100"
    by (simp add: py_float_def dec_literal_def ascii_digit_def dec_value_def)
  have k3: "findall_run (is_word E0) 36 (strip E0 line_pool) = [[65], [66]]"
    unfolding s by (simp add: cls_eval)
  have k4: "search_run (is_word E0) 35 (strip E0 line_pool) = Some [85, 80]"
    unfolding s by (simp add: cls_eval)
  have k5: "list_all (\<lambda>i. i \<noteq> [] \<and> list_all (is_word E0) i) [[65], [66], [65]]
            \<and> (36::nat) \<notin> set [40] \<and> (36::nat) \<notin> set [41]
            \<and> ([41] = [] \<or> \<not> is_word E0 (hd [41]))"
    by (simp add: cls_eval)
  note t = C7_pool_definition [OF h1 h2, of 0 False "[49, 48, 48]" 100 "[85, 80]"
      "[[65], [66], [65]]" "[40]" "[41]"]
  have k3': "findall_run (is_word E0) 36 (strip E0 line_pool) \<noteq> []"
    by (simp add: k3)
  have "\<exists>r w'. execute E0 (Suc 0) False line_pool w0 = Some (r, w')
         \<and> map_of (pools (self w')) [85, 80]
             = Some \<lparr>pool_name = [85, 80], total_prob = 100 / 100,
                     items = findall_run (is_word E0) 36 (strip E0 line_pool)\<rparr>
         \<and> length (cells w' r) = 1 \<and> starts_with tag_pool (hd (cells w' r))"
    using t k1 k2 k3' k4 by (elim exE conjE) blast
  then have p1: "\<exists>r w'. execute E0 (Suc 0) False line_pool w0 = Some (r, w')
         \<and> map_of (pools (self w')) [85, 80]
             = Some \<lparr>pool_name = [85, 80], total_prob = 100 / 100, items = [[65], [66]]\<rparr>
         \<and> length (cells w' r) = 1 \<and> starts_with tag_pool (hd (cells w' r))"
    unfolding k3 .
  have p2: "findall_run (is_word E0) 36 ([40] @ join [44] (map (\<lambda>i. 36 # i) [[65], [66], [65]]) @ [41])
       = [[65], [66], [65]]"
    using t k5 by (elim exE conjE) blast
  from h1 h2 k1 k2 k3 k4 k5 p1 p2 show ?thesis by blast
qed


text \<open>
  The claim as stated fails on \<open>( 5/ (60/:$A)#UP\<close>: the first number directly followed
  by \<open>/\<close> is 5, but no parenthesis stands directly before it, and the pool is stored
  with 60 percent.
\<close>

theorem C7_counterexample:
  "map_option (\<lambda>(r, w'). map (\<lambda>(k, p). (k, total_prob p)) (pools (self w')))
     (execute E0 (Suc 0) False line_pool_nested w0) = Some [([85, 80], 60 / 100)]
   \<and> (case spec_percent_literal E0 line_pool_nested of
         None \<Rightarrow> None | Some g \<Rightarrow> map_option (\<lambda>p. p / 100) (py_float E0 g)) = Some (5 / 100)
   \<and> (60 / 100 :: real) \<noteq> 5 / 100"
proof -
  have s: "strip E0 line_pool_nested
           = [40, 32, 53, 47, 32, 40, 54, 48, 47, 58, 36, 65, 41, 35, 85, 80]"
    by (simp add: str_eval line_pool_nested_def)
  have a: "map_option (\<lambda>(r, w'). map (\<lambda>(k, p). (k, total_prob p)) (pools (self w')))
     (execute E0 (Suc 0) False line_pool_nested w0) = Some [([85, 80], 60 / 100)]"
    unfolding execute_Suc [of E0 line_pool_nested, unfolded s, simplified] s
    by (simp add: dispatch_pool w0_eval define_pool_def cls_eval slash_next_def py_float_def
          dec_literal_def ascii_digit_def dec_value_def)
  have b: "(case spec_percent_literal E0 line_pool_nested of
         None \<Rightarrow> None | Some g \<Rightarrow> map_option (\<lambda>p. p / 100) (py_float E0 g)) = Some (5 / 100)"
    by (simp add: spec_percent_literal_def line_pool_nested_def asc_def cls_eval slash_next_def
          py_float_def dec_literal_def ascii_digit_def dec_value_def)
  show ?thesis using a b by simp
qed

section \<open>The draw loop\<close>





lemma first_drop_ge: "first_drop rnd base pc f d m = Some k \<Longrightarrow> d \<le> k"
proof (induction m arbitrary: pc f d)
  case 0
  then show ?case by simp
next
  case (Suc m)
  show ?case
  proof (cases "rnd f < current_prob base (pc + 1)")
    case True
    then show ?thesis using Suc.prems by simp
  next
    case False
    then have "first_drop rnd base (pc + 1) (Suc f) (Suc d) m = Some k"
      using Suc.prems by simp
    from Suc.IH [OF this] show ?thesis by simp
  qed
qed

lemma draw_loop_facts:
  assumes "items pl \<noteq> []"
  shows "fst (draw_loop t pl cap [d..<d + m] w)
           = (case first_drop (rnd_floats w) (total_prob pl) (pity_counter (self w)) (fpos w) d m of
                None \<Rightarrow> Exhausted
              | Some k \<Rightarrow>
                  if items pl ! (rnd_picks w (ppos w) mod length (items pl)) = t
                  then Returned else Broke)
       \<and> total_spent (self (snd (draw_loop t pl cap [d..<d + m] w)))
           = total_spent (self w)
             + (case first_drop (rnd_floats w) (total_prob pl) (pity_counter (self w)) (fpos w) d m of
                  None \<Rightarrow> 0
                | Some k \<Rightarrow>
                    if items pl ! (rnd_picks w (ppos w) mod length (items pl)) = t
                    then 160 * int k else 0)
       \<and> pity_counter (self (snd (draw_loop t pl cap [d..<d + m] w)))
           = (case first_drop (rnd_floats w) (total_prob pl) (pity_counter (self w)) (fpos w) d m of
                None \<Rightarrow> pity_counter (self w) + int m
              | Some k \<Rightarrow>
                  if items pl ! (rnd_picks w (ppos w) mod length (items pl)) = t
                  then 0 else pity_counter (self w) + int (k - d) + 1)
       \<and> fpos (snd (draw_loop t pl cap [d..<d + m] w))
           = fpos w
             + (case first_drop (rnd_floats w) (total_prob pl) (pity_counter (self w)) (fpos w) d m of
                  None \<Rightarrow> m
                | Some k \<Rightarrow> k - d + 1)"
  using assms
proof (induction m arbitrary: d w)
  case 0
  then show ?case by simp
next
  case (Suc m)
  let ?w2 = "upd (\<lambda>s. s\<lparr>pity_counter := pity_counter s + 1\<rparr>) w\<lparr>fpos := Suc (fpos w)\<rparr>"
  have l: "[d..<d + Suc m] = d # [Suc d..<Suc d + m]"
    by (simp add: upt_conv_Cons)
  show ?case
  proof (cases "rnd_floats w (fpos w) < current_prob (total_prob pl) (pity_counter (self w) + 1)")
    case True
    then show ?thesis
      using Suc.prems unfolding l
      by (simp add: Let_def)
  next
    case False
    have step: "draw_loop t pl cap (d # [Suc d..<Suc d + m]) w
                = draw_loop t pl cap [Suc d..<Suc d + m] ?w2"
      using False by (simp add: Let_def upd_def)
    have fd: "first_drop (rnd_floats w) (total_prob pl) (pity_counter (self w)) (fpos w) d (Suc m)
              = first_drop (rnd_floats ?w2) (total_prob pl) (pity_counter (self ?w2)) (fpos ?w2)
                  (Suc d) m"
      using False by (simp add: upd_def)
    have k: "\<And>k. first_drop (rnd_floats ?w2) (total_prob pl) (pity_counter (self ?w2)) (fpos ?w2)
                  (Suc d) m = Some k \<Longrightarrow> Suc d \<le> k"
      by (rule first_drop_ge)
    show ?thesis
      unfolding l step fd
      using Suc.IH [OF Suc.prems, of "Suc d" ?w2] k
      by (auto simp add: upd_def split: option.splits)
  qed
qed

lemma current_prob_spec: "current_prob base pc = spec_effective_prob base pc"
  by (simp add: current_prob_def spec_effective_prob_def mult.commute)

lemma first_drop_None_iff:
  "first_drop rnd base pc f d m = None
   \<longleftrightarrow> (\<forall>j<m. \<not> rnd (f + j) < current_prob base (pc + int j + 1))"
proof (induction m arbitrary: pc f d)
  case 0
  then show ?case by simp
next
  case (Suc m)
  have "(\<forall>j<m. \<not> rnd (Suc f + j) < current_prob base (pc + 1 + int j + 1))
        = (\<forall>j<m. \<not> rnd (f + Suc j) < current_prob base (pc + int (Suc j) + 1))"
    by (simp add: add.commute add.left_commute)
  then show ?case
    using Suc.IH [of "pc + 1" "Suc f" "Suc d"]
    by (simp add: All_less_Suc2 del: of_nat_Suc)
qed

lemma first_drop_Some_iff:
  "first_drop rnd base pc f d m = Some k
   \<longleftrightarrow> (\<exists>j<m. k = d + j \<and> rnd (f + j) < current_prob base (pc + int j + 1)
              \<and> (\<forall>i<j. \<not> rnd (f + i) < current_prob base (pc + int i + 1)))"
proof (induction m arbitrary: pc f d)
  case 0
  then show ?case by simp
next
  case (Suc m)
  show ?case
  proof (cases "rnd f < current_prob base (pc + 1)")
    case True
    have "(\<exists>j<Suc m. k = d + j \<and> rnd (f + j) < current_prob base (pc + int j + 1)
              \<and> (\<forall>i<j. \<not> rnd (f + i) < current_prob base (pc + int i + 1))) = (k = d)"
    proof
      assume "\<exists>j<Suc m. k = d + j \<and> rnd (f + j) < current_prob base (pc + int j + 1)
              \<and> (\<forall>i<j. \<not> rnd (f + i) < current_prob base (pc + int i + 1))"
      then obtain j where j: "k = d + j"
        "\<forall>i<j. \<not> rnd (f + i) < current_prob base (pc + int i + 1)" by blast
      have "j = 0"
      proof (rule ccontr)
        assume "j \<noteq> 0"
        then have "0 < j" by simp
        with j(2) have "\<not> rnd (f + 0) < current_prob base (pc + int 0 + 1)" by blast
        with True show False by simp
      qed
      with j show "k = d" by simp
    next
      assume "k = d"
      with True show "\<exists>j<Suc m. k = d + j \<and> rnd (f + j) < current_prob base (pc + int j + 1)
              \<and> (\<forall>i<j. \<not> rnd (f + i) < current_prob base (pc + int i + 1))"
        by (intro exI [of _ 0]) simp
    qed
    with True show ?thesis by auto
  next
    case False
    have "(\<exists>j<Suc m. k = d + j \<and> rnd (f + j) < current_prob base (pc + int j + 1)
              \<and> (\<forall>i<j. \<not> rnd (f + i) < current_prob base (pc + int i + 1)))
          = (\<exists>j<m. k = Suc d + j \<and> rnd (Suc f + j) < current_prob base (pc + 1 + int j + 1)
              \<and> (\<forall>i<j. \<not> rnd (Suc f + i) < current_prob base (pc + 1 + int i + 1)))"
      (is "?L = ?R")
    proof
      assume ?L
      then obtain j where j: "j < Suc m" "k = d + j"
        "rnd (f + j) < current_prob base (pc + int j + 1)"
        "\<forall>i<j. \<not> rnd (f + i) < current_prob base (pc + int i + 1)" by blast
      from j(3) False have "j \<noteq> 0" by (cases j) auto
      then obtain j' where j': "j = Suc j'" by (cases j) auto
      have "\<forall>i<j'. \<not> rnd (Suc f + i) < current_prob base (pc + 1 + int i + 1)"
      proof (intro allI impI)
        fix i assume "i < j'"
        then have "Suc i < j" using j' by simp
        with j(4) have "\<not> rnd (f + Suc i) < current_prob base (pc + int (Suc i) + 1)" by blast
        then show "\<not> rnd (Suc f + i) < current_prob base (pc + 1 + int i + 1)"
          by (simp add: add.commute add.left_commute)
      qed
      moreover have "rnd (Suc f + j') < current_prob base (pc + 1 + int j' + 1)"
        using j(3) j' by (simp add: add.commute add.left_commute)
      ultimately show ?R using j(1,2) j' by (intro exI [of _ j']) simp
    next
      assume ?R
      then obtain j where j: "j < m" "k = Suc d + j"
        "rnd (Suc f + j) < current_prob base (pc + 1 + int j + 1)"
        "\<forall>i<j. \<not> rnd (Suc f + i) < current_prob base (pc + 1 + int i + 1)" by blast
      have "\<forall>i<Suc j. \<not> rnd (f + i) < current_prob base (pc + int i + 1)"
      proof (intro allI impI)
        fix i assume a: "i < Suc j"
        show "\<not> rnd (f + i) < current_prob base (pc + int i + 1)"
        proof (cases i)
          case 0
          then show ?thesis using False by simp
        next
          case (Suc i')
          then have "i' < j" using a by simp
          with j(4) have "\<not> rnd (Suc f + i') < current_prob base (pc + 1 + int i' + 1)" by blast
          then show ?thesis using Suc by (simp add: add.commute add.left_commute)
        qed
      qed
      moreover have "rnd (f + Suc j) < current_prob base (pc + int (Suc j) + 1)"
        using j(3) by (simp add: add.commute add.left_commute)
      ultimately show ?L using j(1,2) by (intro exI [of _ "Suc j"]) simp
    qed
    then show ?thesis
      using False Suc.IH [of "pc + 1" "Suc f" "Suc d"] by simp
  qed
qed

lemma draw_loop_single:
  assumes "items pl \<noteq> []"
  shows "(fst (draw_loop t pl cap [k] w) \<noteq> Exhausted)
           = (rnd_floats w (fpos w) < current_prob (total_prob pl) (pity_counter (self w) + 1))
     \<and> inventory (self (snd (draw_loop t pl cap [k] w)))
         = (if rnd_floats w (fpos w) < current_prob (total_prob pl) (pity_counter (self w) + 1)
            then inventory (self w) @ [items pl ! (rnd_picks w (ppos w) mod length (items pl))]
            else inventory (self w))"
  using assms by (simp add: Let_def)

section \<open>The dispatcher on lines that do not call a defined function\<close>








lemma spent_handlers [simp]:
  "total_spent (self (snd (start_function_def E l w))) = total_spent (self w)"
  "total_spent (self (end_function_def w)) = total_spent (self w)"
  "total_spent (self (snd (define_pool E l w))) = total_spent (self w)"
  "total_spent (self (snd (assign_variable E l w))) = total_spent (self w)"
  "total_spent (self (handle_output E l w)) = total_spent (self w)"
  "total_spent (self (handle_math E l w)) = total_spent (self w)"
  "total_spent (self (handle_return E l w)) = total_spent (self w)"
  "total_spent (self (reset w)) = 0"
  by (simp_all add: start_function_def_def end_function_def_def define_pool_def
        assign_variable_def assign_confirm_def set_variable_def handle_output_def
        handle_math_def handle_return_def reset_def new_list_def init_interp_def Let_def
        split: option.splits prod.splits)

lemma fpos_handlers [simp]:
  "fpos (snd (start_function_def E l w)) = fpos w"
  "fpos (end_function_def w) = fpos w"
  "fpos (snd (define_pool E l w)) = fpos w"
  "fpos (snd (assign_variable E l w)) = fpos w"
  "fpos (handle_output E l w) = fpos w"
  "fpos (handle_math E l w) = fpos w"
  "fpos (handle_return E l w) = fpos w"
  "fpos (reset w) = fpos w"
  by (simp_all add: start_function_def_def end_function_def_def define_pool_def
        assign_variable_def assign_confirm_def set_variable_def handle_output_def
        handle_math_def handle_return_def reset_def new_list_def init_interp_def Let_def
        split: option.splits prod.splits)






lemma enter_preds [simp]:
  "resets (enter E sp line w) l = resets w l"
  "draws (enter E sp line w) l = draws w l"
  "calls_defined E (enter E sp line w) l = calls_defined E w l"
  by (auto simp add: resets_def draws_def calls_defined_def split: option.splits prod.splits)



lemma dispatch_draw:
  "\<not> in_function (self w) \<Longrightarrow>
   execute_line E k exec (60 # cs) w = Some (execute_target E (60 # cs) w)"
  by (simp add: execute_line_def asc_return)



section \<open>The concrete pool and draws\<close>

text \<open>
  The initial world answers every \<open>random.random()\<close> with 0 and every
  \<open>random.choice\<close> with index 1.  After \<open>(100/:$A,$B)#UP\<close> the pool \<open>UP\<close> holds
  \<open>A\<close> and \<open>B\<close> with probability 1, so the first attempt of a draw drops \<open>B\<close>.
\<close>

lemma strip_lines:
  "strip E0 line_pool = [40, 49, 48, 48, 47, 58, 36, 65, 44, 36, 66, 41, 35, 85, 80]"
  "strip E0 line_draw = [60, 36, 65, 44, 35, 85, 80, 44, 42, 57, 48, 62]"
  "strip E0 line_draw_b = [60, 36, 66, 44, 35, 85, 80, 44, 42, 57, 48, 62]"
  "strip E0 line_reset = [47, 114, 101, 115, 101, 116]"
  by (simp_all add: str_eval line_pool_def line_draw_def line_draw_b_def line_reset_def)

lemmas draw_eval = execute_Suc strip_lines dispatch_pool dispatch_draw define_pool_def
  execute_target_def run_draws_def current_prob_def py_int_def py_float_def dec_literal_def
  ascii_digit_def dec_value_def slash_next_def is_space_def is_word_def is_dd_def
  is_digit_def digit_val_def w0_eval exec_all.simps Let_def upt_conv_Cons


lemma w_pool_facts:
  "\<not> in_function (self (world_after [line_pool]))"
  "map_of (pools (self (world_after [line_pool]))) [85, 80]
     = Some \<lparr>pool_name = [85, 80], total_prob = 1, items = [[65], [66]]\<rparr>"
  "pity_counter (self (world_after [line_pool])) = 0"
  "total_spent (self (world_after [line_pool])) = 0"
  "rnd_floats (world_after [line_pool]) n = 0"
  "rnd_picks (world_after [line_pool]) n = 1"
  "inventory (self (world_after [line_pool])) = []"
  "functions (self (world_after [line_pool])) = []"
  by (simp_all add: world_after_def draw_eval)


section \<open>The effective probability of a draw attempt\<close>

text \<open>
  C5.  The probability an attempt compares its sample with is the pool's base
  probability while the counter, after its increment for the attempt, is at most 70,
  and \<open>min(1, base + 0.02 * d)\<close> when it is \<open>70 + d\<close> with \<open>d > 0\<close> (floats are
  modelled as reals).  The comparison decides the attempt: on a pool with items, one
  attempt drops exactly when its sample is below that probability, and exactly then
  the picked item joins the inventory; a sequence of \<open>m\<close> attempts runs to exhaustion
  exactly when none of its \<open>m\<close> samples is below the probability of its attempt, and
  it stops after attempt \<open>j + 1\<close>, having taken \<open>j + 1\<close> samples, when sample \<open>j\<close> is
  the first that is.
\<close>

theorem C5_soft_pity_probability:
  "(pc \<le> 70 \<longrightarrow> current_prob base pc = base)
   \<and> (0 < d \<longrightarrow> current_prob base (70 + d) = min 1 (base + 0.02 * real_of_int d))
   \<and> (items pl \<noteq> [] \<longrightarrow>
        (fst (draw_loop t pl cap [k] w) \<noteq> Exhausted)
          = (rnd_floats w (fpos w)
               < spec_effective_prob (total_prob pl) (pity_counter (self w) + 1))
        \<and> inventory (self (snd (draw_loop t pl cap [k] w)))
            = (if rnd_floats w (fpos w)
                    < spec_effective_prob (total_prob pl) (pity_counter (self w) + 1)
               then inventory (self w)
                      @ [items pl ! (rnd_picks w (ppos w) mod length (items pl))]
               else inventory (self w)))
   \<and> (items pl \<noteq> [] \<longrightarrow>
        (fst (draw_loop t pl cap [a..<a + m] w) = Exhausted)
          = (\<forall>j<m. \<not> rnd_floats w (fpos w + j)
                         < spec_effective_prob (total_prob pl)
                             (pity_counter (self w) + int j + 1)))
   \<and> (items pl \<noteq> [] \<and> j < m
        \<and> rnd_floats w (fpos w + j)
            < spec_effective_prob (total_prob pl) (pity_counter (self w) + int j + 1)
        \<and> (\<forall>i<j. \<not> rnd_floats w (fpos w + i)
                       < spec_effective_prob (total_prob pl)
                           (pity_counter (self w) + int i + 1)) \<longrightarrow>
        fst (draw_loop t pl cap [a..<a + m] w) \<noteq> Exhausted
        \<and> fpos (snd (draw_loop t pl cap [a..<a + m] w)) = fpos w + j + 1)"
proof (intro conjI impI)
  show "pc \<le> 70 \<Longrightarrow> current_prob base pc = base"
    by (simp add: current_prob_def)
next
  show "0 < d \<Longrightarrow> current_prob base (70 + d) = min 1 (base + 0.02 * real_of_int d)"
    by (simp add: current_prob_def mult.commute)
next
  assume "items pl \<noteq> []"
  from draw_loop_single [OF this, of t cap k w]
  show "(fst (draw_loop t pl cap [k] w) \<noteq> Exhausted)
          = (rnd_floats w (fpos w)
               < spec_effective_prob (total_prob pl) (pity_counter (self w) + 1))"
    and "inventory (self (snd (draw_loop t pl cap [k] w)))
            = (if rnd_floats w (fpos w)
                    < spec_effective_prob (total_prob pl) (pity_counter (self w) + 1)
               then inventory (self w)
                      @ [items pl ! (rnd_picks w (ppos w) mod length (items pl))]
               else inventory (self w))"
    unfolding current_prob_spec by blast+
next
  assume i: "items pl \<noteq> []"
  from draw_loop_facts [OF i, of t cap a m w]
  have "(fst (draw_loop t pl cap [a..<a + m] w) = Exhausted)
        = (first_drop (rnd_floats w) (total_prob pl) (pity_counter (self w)) (fpos w) a m = None)"
    by (auto split: option.splits if_splits)
  then show "(fst (draw_loop t pl cap [a..<a + m] w) = Exhausted)
          = (\<forall>j<m. \<not> rnd_floats w (fpos w + j)
                         < spec_effective_prob (total_prob pl)
                             (pity_counter (self w) + int j + 1))"
    by (simp add: first_drop_None_iff current_prob_spec)
next
  assume h: "items pl \<noteq> [] \<and> j < m
        \<and> rnd_floats w (fpos w + j)
            < spec_effective_prob (total_prob pl) (pity_counter (self w) + int j + 1)
        \<and> (\<forall>i<j. \<not> rnd_floats w (fpos w + i)
                       < spec_effective_prob (total_prob pl)
                           (pity_counter (self w) + int i + 1))"
  then have fd: "first_drop (rnd_floats w) (total_prob pl) (pity_counter (self w)) (fpos w) a m
             = Some (a + j)"
    unfolding first_drop_Some_iff current_prob_spec by blast
  from h have i: "items pl \<noteq> []" by simp
  from draw_loop_facts [OF i, of t cap a m w] fd
  show "fst (draw_loop t pl cap [a..<a + m] w) \<noteq> Exhausted"
    and "fpos (snd (draw_loop t pl cap [a..<a + m] w)) = fpos w + j + 1"
    by (auto split: if_splits)
qed

text \<open>The theorem at the pool \<open>UP\<close> after its definition: the first attempt drops
  \<open>B\<close>; with base probability 0 three attempts are exhausted.\<close>

theorem C5_soft_pity_probability_witness:
  "(70::int) \<le> 70 \<and> current_prob (3 / 5) 70 = 3 / 5
   \<and> (0::int) < 5 \<and> current_prob (3 / 5) (70 + 5) = 7 / 10
   \<and> items \<lparr>pool_name = [85, 80], total_prob = 1, items = [[65], [66]]\<rparr> \<noteq> []
   \<and> rnd_floats (world_after [line_pool]) (fpos (world_after [line_pool]))
        < spec_effective_prob
            (total_prob \<lparr>pool_name = [85, 80], total_prob = 1, items = [[65], [66]]\<rparr>)
            (pity_counter (self (world_after [line_pool])) + 1)
   \<and> fst (draw_loop [66] \<lparr>pool_name = [85, 80], total_prob = 1, items = [[65], [66]]\<rparr> 90 [1]
            (world_after [line_pool])) \<noteq> Exhausted
   \<and> inventory (self (snd (draw_loop [66]
         \<lparr>pool_name = [85, 80], total_prob = 1, items = [[65], [66]]\<rparr> 90 [1]
         (world_after [line_pool])))) = [[66]]
   \<and> fst (draw_loop [66] \<lparr>pool_name = [85, 80], total_prob = 0, items = [[65], [66]]\<rparr> 3
            [1..<1 + 3] (world_after [line_pool])) = Exhausted
   \<and> (0::nat) < 90
   \<and> fst (draw_loop [66] \<lparr>pool_name = [85, 80], total_prob = 1, items = [[65], [66]]\<rparr> 90
            [1..<1 + 90] (world_after [line_pool])) \<noteq> Exhausted
   \<and> fpos (snd (draw_loop [66] \<lparr>pool_name = [85, 80], total_prob = 1, items = [[65], [66]]\<rparr>
                  90 [1..<1 + 90] (world_after [line_pool])))
       = fpos (world_after [line_pool]) + 0 + 1"
proof -
  let ?W = "world_after [line_pool]"
  let ?P = "\<lparr>pool_name = [85, 80], total_prob = 1, items = [[65], [66]]\<rparr>"
  let ?Q = "\<lparr>pool_name = [85, 80], total_prob = 0, items = [[65], [66]]\<rparr>"
  let ?B = "rnd_floats ?W (fpos ?W)
              < spec_effective_prob (total_prob ?P) (pity_counter (self ?W) + 1)"
  have t: "(70::int) \<le> 70" "(0::int) < 5" "(0::nat) < 90" by simp_all
  have ip: "items ?P \<noteq> []" and iq: "items ?Q \<noteq> []" by simp_all
  have s: ?B
    by (simp add: w_pool_facts spec_effective_prob_def)
  have s0: "rnd_floats ?W (fpos ?W + 0)
              < spec_effective_prob (total_prob ?P) (pity_counter (self ?W) + int 0 + 1)"
    by (simp add: w_pool_facts spec_effective_prob_def)
  have n0: "\<forall>i<0::nat. \<not> rnd_floats ?W (fpos ?W + i)
              < spec_effective_prob (total_prob ?P) (pity_counter (self ?W) + int i + 1)"
    by simp
  have r: "\<forall>j<3. \<not> rnd_floats ?W (fpos ?W + j)
              < spec_effective_prob (total_prob ?Q) (pity_counter (self ?W) + int j + 1)"
    by (simp add: w_pool_facts spec_effective_prob_def)
  note a = C5_soft_pity_probability [where pc = 70 and base = "3 / 5" and d = 5 and pl = ?P
      and t = "[66]" and cap = 90 and k = 1 and w = ?W and a = 1 and m = 90 and j = 0]
  note b = C5_soft_pity_probability [where pl = ?Q and t = "[66]" and cap = 3 and w = ?W
      and a = 1 and m = 3]
  from a t have c1: "current_prob (3 / 5) 70 = 3 / 5" by blast
  from a t have "current_prob (3 / 5) (70 + 5) = min 1 (3 / 5 + 0.02 * real_of_int 5)"
    by blast
  then have c2: "current_prob (3 / 5) (70 + 5) = 7 / 10" by simp
  from a ip s have c3: "fst (draw_loop [66] ?P 90 [1] ?W) \<noteq> Exhausted" by blast
  from a ip have "inventory (self (snd (draw_loop [66] ?P 90 [1] ?W)))
      = (if ?B then inventory (self ?W)
                      @ [items ?P ! (rnd_picks ?W (ppos ?W) mod length (items ?P))]
         else inventory (self ?W))"
    by blast
  also have "\<dots> = [[66]]"
    using s by (simp add: w_pool_facts)
  finally have c3': "inventory (self (snd (draw_loop [66] ?P 90 [1] ?W))) = [[66]]" .
  from b iq have "(fst (draw_loop [66] ?Q 3 [1..<1 + 3] ?W) = Exhausted)
          = (\<forall>j<3. \<not> rnd_floats ?W (fpos ?W + j)
                         < spec_effective_prob (total_prob ?Q)
                             (pity_counter (self ?W) + int j + 1))"
    by blast
  with r have c4: "fst (draw_loop [66] ?Q 3 [1..<1 + 3] ?W) = Exhausted" by blast
  from a ip t s0 n0 have c5: "fst (draw_loop [66] ?P 90 [1..<1 + 90] ?W) \<noteq> Exhausted
     \<and> fpos (snd (draw_loop [66] ?P 90 [1..<1 + 90] ?W)) = fpos ?W + 0 + 1"
    by blast
  from t ip s c1 c2 c3 c3' c4 c5 show ?thesis by blast
qed

section \<open>The pity counter after a draw\<close>

text \<open>
  C1.  The loop of \<open>_execute_target\<close> leaves through \<open>break\<close> when the first drop is
  not the target, and that exit does not reset \<open>pity_counter\<close>, unlike the \<open>return\<close>
  on a hit and the \<open>else\<close> clause on exhaustion.  After \<open>(100/:$A,$B)#UP\<close>, the draw
  \<open><$A,#UP,*90>\<close> drops \<open>B\<close> at its first attempt and leaves the counter at 1; the draw
  \<open><$B,#UP,*90>\<close> hits its target and leaves it at 0.
\<close>

theorem C1_pity_counter_not_reset:
  "pity_after [line_pool, line_draw] = Some 1
   \<and> pity_after [line_pool, line_draw_b] = Some 0"
  by (simp add: pity_after_def draw_eval)

section \<open>Function calls\<close>

text \<open>
  The loop over the list an inner \<open>execute\<close> returned: that list is the object
  \<open>self.output_lines\<close> refers to, so every line the loop appends is a line it will
  visit.  It ends only when every line it meets starts with the marker of a
  definition confirmation.
\<close>

lemma out_loop_noisy:
  "output_lines (self w) = r \<Longrightarrow> i \<le> j \<Longrightarrow> j < length (cells w r)
   \<Longrightarrow> \<not> starts_with tag_func (cells w r ! j) \<Longrightarrow> out_loop k r i w = None"
proof (induction k arbitrary: i j w)
  case 0
  then show ?case by simp
next
  case (Suc k)
  have il: "i < length (cells w r)" using Suc.prems by simp
  show ?case
  proof (cases "starts_with tag_func (cells w r ! i)")
    case True
    with Suc.prems have "Suc i \<le> j" by (cases "i = j") auto
    from Suc.IH [OF Suc.prems(1) this Suc.prems(3,4)] il True show ?thesis by simp
  next
    case False
    let ?w = "out_append ([32, 32] @ cells w r ! i) w"
    have c: "cells ?w r = cells w r @ [[32, 32] @ cells w r ! i]"
      using Suc.prems(1) by (simp add: out_append_def)
    have "out_loop k r (Suc i) ?w = None"
    proof (rule Suc.IH [where j = "length (cells w r)"])
      show "output_lines (self ?w) = r" using Suc.prems(1) by simp
      show "Suc i \<le> length (cells w r)" using il by simp
      show "length (cells w r) < length (cells ?w r)" using c by simp
      show "\<not> starts_with tag_func (cells ?w r ! length (cells w r))"
        using c by (simp add: tag_func_def)
    qed
    with il False show ?thesis by simp
  qed
qed


lemma strip_Nil [simp]: "strip E [] = []"
  by (simp add: strip_def lstrip_def rstrip_def)

lemma strip_fn_lines:
  "strip E0 line_def_f = [162, 46, 102, 40, 41]"
  "strip E0 line_end = [162, 46, 69, 110, 100]"
  "strip E0 line_call_f = [102, 40, 41]"
  "strip E0 line_comment_empty = [162]"
  "strip E0 line_comment_hi = [162, 32, 104, 105]"
  by (simp_all add: str_eval line_def_f_def line_end_def line_call_f_def
        line_comment_empty_def line_comment_hi_def)

lemmas fn_eval = world_after_def exec_all.simps execute_Suc strip_fn_lines execute_line_def
  start_function_def_def end_function_def_def match_def_header_def match_name_parens_def
  split_commas_def contains_def ends_with_def is_word_def w0_eval Let_def

lemma w_fn_facts:
  "\<not> in_function (self (world_after [line_def_f, line_comment_empty, line_end]))"
  "map_of (functions (self (world_after [line_def_f, line_comment_empty, line_end]))) [102]
     = Some \<lparr>func_name = [102], params = [], body = [[162]]\<rparr>"
  "\<not> in_function (self (world_after [line_def_f, line_comment_hi, line_end]))"
  "map_of (functions (self (world_after [line_def_f, line_comment_hi, line_end]))) [102]
     = Some \<lparr>func_name = [102], params = [], body = [[162, 32, 104, 105]]\<rparr>"
  "\<not> in_function (self (world_after [line_def_f, line_call_f, line_end]))"
  "map_of (functions (self (world_after [line_def_f, line_call_f, line_end]))) [102]
     = Some \<lparr>func_name = [102], params = [], body = [[102, 40, 41]]\<rparr>"
  by (simp_all add: fn_eval)

lemma execute_call:
  assumes "\<not> in_function (self w)" "is_call_line E (strip E line)"
    "match_name_parens E (strip E line) = Some (fname, inner, after)"
    "map_of (functions (self w)) fname = Some f"
  shows "execute E (Suc n) sp line w
    = (case body_loop E n (execute E n False) f (split_commas E (strip E inner)) (body f)
              (out_append (tag_call @ fname @ [40] @ strip E inner @ [41]) (enter E sp line w)) of
         None \<Rightarrow> None
       | Some w1 \<Rightarrow> Some (output_lines (self w1), w1))"
proof -
  obtain c cs where l: "strip E line = c # cs" and cw: "is_word E c"
    using assms(3)
    by (cases "strip E line") (auto simp: match_name_parens_def Let_def split: if_splits)
  have c: "c \<noteq> 162" using cw not_word_markers(2) [of E] by auto
  have ne: "strip E line \<noteq> []" using l by simp
  have "execute_line E n (execute E n False) (strip E line) (enter E sp line w)
        = (case call_function E n (execute E n False) (strip E line) (enter E sp line w) of
             None \<Rightarrow> None | Some w1 \<Rightarrow> Some (None, w1))"
    using assms(1,2) c unfolding l by (simp add: execute_line_def)
  then show ?thesis
    using assms(3,4)
    by (simp add: execute_Suc [OF ne] call_function_def Let_def split: option.splits)
qed

lemma execute_comment:
  assumes "\<not> in_function (self w)" "strip E line = 162 # cs"
    "\<not> starts_with [46] cs" "\<not> starts_with [44] cs"
  shows "execute E (Suc n) sp line w
    = Some (nxt w, if strip E cs \<noteq> [] then out_append (tag_note @ strip E cs) (enter E sp line w)
                   else enter E sp line w)"
proof -
  have ne: "strip E line \<noteq> []" using assms(2) by simp
  show ?thesis
    using assms(1,3,4) unfolding execute_Suc [OF ne] assms(2)
    by (simp add: execute_line_def Let_def)
qed

lemma call_f_facts:
  "is_call_line E0 (strip E0 line_call_f)"
  "match_name_parens E0 (strip E0 line_call_f) = Some ([102], [], [])"
  "strip E0 [102, 40, 41] = [102, 40, 41]"
  "strip E0 [162] = [162]"
  "strip E0 [162, 32, 104, 105] = [162, 32, 104, 105]"
  "strip E0 [32, 104, 105] = [104, 105]"
  by (simp_all add: strip_fn_lines) (simp_all add: str_eval)





lemma noisy_pos [simp]:
  "noisy (w\<lparr>fpos := x\<rparr>) = noisy w" "noisy (w\<lparr>ppos := y\<rparr>) = noisy w"
  by (simp_all add: noisy_def)

















section \<open>The amount spent\<close>




section \<open>Termination\<close>




section \<open>What a function call returns\<close>

text \<open>
  C3.  \<open>execute\<close> makes \<open>self.output_lines\<close> refer to a new list at every call, also
  at the calls \<open>_call_function\<close> makes for the body lines, and \<open>_call_function\<close>
  iterates over the list the inner call returned while it appends to
  \<open>self.output_lines\<close>, which is that same list.  For \<open>f\<close> defined with the body line
  \<open>\<cent>\<close> (an empty comment, which leaves no output), the call \<open>f()\<close> returns the empty
  list: the echo line of the call is lost.  For \<open>f\<close> defined with the body line
  \<open>\<cent> hi\<close>, the call \<open>f()\<close> never returns: the loop appends an indented copy of every
  line it visits to the list it is visiting.
\<close>

theorem C3_call_output_aliasing:
  "outputs_of (execute E0 (Suc (Suc n)) False line_call_f
                 (world_after [line_def_f, line_comment_empty, line_end])) = Some []
   \<and> execute E0 n False line_call_f
        (world_after [line_def_f, line_comment_hi, line_end]) = None"
proof
  let ?W = "world_after [line_def_f, line_comment_empty, line_end]"
  let ?w = "out_append (tag_call @ [102] @ [40] @ strip E0 [] @ [41])
              (enter E0 False line_call_f ?W)"
  have ni: "\<not> in_function (self ?w)" using w_fn_facts(1) by simp
  have "execute E0 (Suc n) False [162] ?w = Some (nxt ?w, enter E0 False [162] ?w)"
    using execute_comment [OF ni call_f_facts(4), of n False] by simp
  then show "outputs_of (execute E0 (Suc (Suc n)) False line_call_f ?W) = Some []"
    unfolding execute_call [OF w_fn_facts(1) call_f_facts(1,2) w_fn_facts(2)]
    by (simp add: call_f_facts(4) outputs_of_def)
next
  let ?W = "world_after [line_def_f, line_comment_hi, line_end]"
  let ?w = "out_append (tag_call @ [102] @ [40] @ strip E0 [] @ [41])
              (enter E0 False line_call_f ?W)"
  let ?l = "[162, 32, 104, 105]"
  show "execute E0 n False line_call_f ?W = None"
  proof (cases n)
    case 0
    then show ?thesis by (simp add: execute.simps)
  next
    case (Suc m)
    have ni: "\<not> in_function (self ?w)" using w_fn_facts(3) by simp
    have "execute E0 m False ?l ?w = None
      \<or> (\<exists>r w1. execute E0 m False ?l ?w = Some (r, w1) \<and> out_loop m r 0 w1 = None)"
    proof (cases m)
      case 0
      then show ?thesis by (simp add: execute.simps)
    next
      case (Suc k)
      let ?w1 = "out_append (tag_note @ [104, 105]) (enter E0 False ?l ?w)"
      have e: "execute E0 (Suc k) False ?l ?w = Some (nxt ?w, ?w1)"
        using execute_comment [OF ni call_f_facts(5), of k False]
        by (simp add: call_f_facts(6))
      have "out_loop (Suc k) (nxt ?w) 0 ?w1 = None"
      proof (rule out_loop_noisy [where j = 0])
        show "output_lines (self ?w1) = nxt ?w" by simp
        show "0 < length (cells ?w1 (nxt ?w))" by (simp add: cells_out_append)
        show "\<not> starts_with tag_func (cells ?w1 (nxt ?w) ! 0)"
          by (simp add: cells_out_append tag_func_def tag_note_def)
      qed simp
      then show ?thesis unfolding Suc e by simp
    qed
    then show ?thesis
      unfolding Suc execute_call [OF w_fn_facts(3) call_f_facts(1,2) w_fn_facts(4)]
      by (auto simp add: call_f_facts(5))
  qed
qed

section \<open>Assignments whose value ends with a slash\<close>

text \<open>How the dispatcher reaches the assignment handler, and when the percent
  pattern finds nothing in a value without digits.\<close>

lemma dispatch_assign:
  assumes "\<not> in_function (self w)" "61 \<in> set cs" "\<not> starts_with [162] cs"
  shows "execute_line E k exec (35 # cs) w = Some (assign_variable E (35 # cs) w)"
  using assms by (cases cs) (auto simp add: execute_line_def asc_return)

lemma dots_then_slash:
  "list_all (\<lambda>c. \<not> is_digit E c) cs \<Longrightarrow> slash_next (dropWhile (is_dd E) cs) \<Longrightarrow>
   contains [46, 47] (46 # cs)"
proof (induction cs)
  case Nil
  then show ?case by (simp add: slash_next_def)
next
  case (Cons x xs)
  show ?case
  proof (cases "is_dd E x")
    case True
    then have "x = 46" using Cons.prems(1) by (simp add: is_dd_def)
    moreover have "contains [46, 47] (46 # xs)"
      using Cons True by simp
    ultimately show ?thesis by simp
  next
    case False
    then have "x = 47" using Cons.prems(2) by (simp add: slash_next_def)
    then show ?thesis by simp
  qed
qed

lemma search_pct_none:
  "list_all (\<lambda>c. \<not> is_digit E c) v \<Longrightarrow> \<not> dot_before_slash v \<Longrightarrow> search_pct E v = None"
proof (induction v)
  case Nil
  then show ?case by simp
next
  case (Cons c cs)
  have nd: "\<not> is_digit E c" and rest: "list_all (\<lambda>c. \<not> is_digit E c) cs"
    using Cons.prems(1) by simp_all
  have nc: "\<not> contains [46, 47] (c # cs)"
    using Cons.prems(2) by (simp add: dot_before_slash_def)
  then have nc': "\<not> dot_before_slash cs"
    by (simp add: dot_before_slash_def)
  have "\<not> (is_dd E c \<and> slash_next (dropWhile (is_dd E) cs))"
  proof
    assume a: "is_dd E c \<and> slash_next (dropWhile (is_dd E) cs)"
    then have "c = 46" using nd by (simp add: is_dd_def)
    with dots_then_slash [OF rest] a nc show False by blast
  qed
  then show ?case
    using Cons.IH [OF rest nc'] by auto
qed

lemma strip_assign_lines:
  "strip E0 line_assign_abc = [35, 120, 32, 61, 32, 97, 98, 99, 47]"
  "strip E0 line_assign_mid_dot = [35, 120, 32, 61, 32, 97, 46, 98, 47]"
  "strip E0 line_assign_two_words = [35, 120, 32, 121, 32, 61, 32, 97, 98, 99, 47]"
  "strip E0 line_assign_dot = [35, 120, 32, 61, 32, 46, 47]"
  "strip E0 line_assign_yen = [35, 120, 32, 61, 32, 165, 47]"
  "strip E0 [97, 98, 99, 47] = [97, 98, 99, 47]"
  "strip E0 [97, 46, 98, 47] = [97, 46, 98, 47]"
  "strip E0 [46, 47] = [46, 47]"
  "strip E0 [165, 47] = [165, 47]"
  by (simp_all add: str_eval line_assign_abc_def line_assign_mid_dot_def
        line_assign_two_words_def line_assign_dot_def line_assign_yen_def)

text \<open>
  C9.  At top level, for a line that matches the assignment pattern \<open>#name = value\<close>
  and whose value, once stripped, ends with \<open>/\<close>, has no digit, has no \<open>.\<close> directly
  before a \<open>/\<close> and does not start with the currency marker, \<open>execute\<close> returns
  exactly the confirmation line and changes no field of the interpreter (only the
  reference \<open>output_lines\<close> points to the returned list); nothing is stored.  A
  line that the dispatcher takes for an assignment (it starts with \<open>#\<close>, contains
  \<open>=\<close> and does not start with \<open>#\<cent>\<close>) but that does not match the pattern, such as
  \<open>#x y = abc/\<close>, gets exactly the usage diagnostic, and again no field changes.
\<close>

theorem C9_assignment_percent_without_number:
  "(\<not> in_function (self w) \<and> match_assign E (strip E line) = Some (name, g)
     \<and> ends_with [47] (strip E g) \<and> \<not> starts_with [165] (strip E g)
     \<and> list_all (\<lambda>c. \<not> is_digit E c) (strip E g) \<and> \<not> dot_before_slash (strip E g) \<longrightarrow>
      (\<exists>r w'. execute E (Suc n) sp line w = Some (r, w')
         \<and> cells w' r = [tag_var @ name @ asc '' = '' @ strip E g]
         \<and> self w' = (self w)\<lparr>output_lines := r\<rparr>))
   \<and> (\<not> in_function (self w) \<and> starts_with [35] (strip E line) \<and> 61 \<in> set (strip E line)
       \<and> \<not> starts_with [35, 162] (strip E line) \<and> match_assign E (strip E line) = None \<longrightarrow>
      (\<exists>r w'. execute E (Suc n) sp line w = Some (r, w')
         \<and> cells w' r = [asc ''[!] '' @ msg_assign_usage]
         \<and> self w' = (self w)\<lparr>output_lines := r\<rparr>))"
proof (intro conjI impI)
  assume a: "\<not> in_function (self w) \<and> match_assign E (strip E line) = Some (name, g)
     \<and> ends_with [47] (strip E g) \<and> \<not> starts_with [165] (strip E g)
     \<and> list_all (\<lambda>c. \<not> is_digit E c) (strip E g) \<and> \<not> dot_before_slash (strip E g)"
  then have m: "match_assign E (strip E line) = Some (name, g)" by simp
  from match_assign_shape [OF m] obtain c cs where
    l: "strip E line = 35 # c # cs" and c: "is_word E c" and eq: "61 \<in> set cs"
    by blast
  have ne: "strip E line \<noteq> []" using l by simp
  have c162: "c \<noteq> 162" using c by (auto simp: is_word_def)
  have d: "execute_line E n (execute E n False) (strip E line) (enter E sp line w)
           = Some (assign_variable E (strip E line) (enter E sp line w))"
    unfolding l using a eq c162 by (intro dispatch_assign) simp_all
  have v: "assign_variable E (strip E line) (enter E sp line w)
           = assign_confirm name (strip E g) (enter E sp line w)"
    using a by (simp add: assign_variable_def Let_def search_pct_none)
  show "\<exists>r w'. execute E (Suc n) sp line w = Some (r, w')
         \<and> cells w' r = [tag_var @ name @ asc '' = '' @ strip E g]
         \<and> self w' = (self w)\<lparr>output_lines := r\<rparr>"
    by (simp add: execute_Suc [OF ne] d v assign_confirm_def cells_out_append)
next
  assume a: "\<not> in_function (self w) \<and> starts_with [35] (strip E line) \<and> 61 \<in> set (strip E line)
       \<and> \<not> starts_with [35, 162] (strip E line) \<and> match_assign E (strip E line) = None"
  then obtain cs where l: "strip E line = 35 # cs"
    by (cases "strip E line") auto
  have ne: "strip E line \<noteq> []" using l by simp
  have d: "execute_line E n (execute E n False) (strip E line) (enter E sp line w)
           = Some (assign_variable E (strip E line) (enter E sp line w))"
    unfolding l using a l by (intro dispatch_assign) auto
  have v: "assign_variable E (strip E line) (enter E sp line w)
           = (Some (ValueError msg_assign_usage), enter E sp line w)"
    using a by (simp add: assign_variable_def)
  show "\<exists>r w'. execute E (Suc n) sp line w = Some (r, w')
         \<and> cells w' r = [asc ''[!] '' @ msg_assign_usage]
         \<and> self w' = (self w)\<lparr>output_lines := r\<rparr>"
    by (simp add: execute_Suc [OF ne] d v cells_out_append)
qed

text \<open>The theorem at \<open>#x = abc/\<close>, \<open>#x = a.b/\<close> and \<open>#x y = abc/\<close> in the initial
  world.\<close>

theorem C9_assignment_percent_without_number_witness:
  "\<not> in_function (self w0)
   \<and> match_assign E0 (strip E0 line_assign_abc) = Some ([120], [97, 98, 99, 47])
   \<and> ends_with [47] (strip E0 [97, 98, 99, 47])
   \<and> \<not> starts_with [165] (strip E0 [97, 98, 99, 47])
   \<and> list_all (\<lambda>c. \<not> is_digit E0 c) (strip E0 [97, 98, 99, 47])
   \<and> \<not> dot_before_slash (strip E0 [97, 98, 99, 47])
   \<and> (\<exists>r w'. execute E0 (Suc 0) False line_assign_abc w0 = Some (r, w')
         \<and> cells w' r = [tag_var @ [120] @ asc '' = '' @ strip E0 [97, 98, 99, 47]]
         \<and> self w' = (self w0)\<lparr>output_lines := r\<rparr>)
   \<and> match_assign E0 (strip E0 line_assign_mid_dot) = Some ([120], [97, 46, 98, 47])
   \<and> ends_with [47] (strip E0 [97, 46, 98, 47])
   \<and> \<not> starts_with [165] (strip E0 [97, 46, 98, 47])
   \<and> list_all (\<lambda>c. \<not> is_digit E0 c) (strip E0 [97, 46, 98, 47])
   \<and> \<not> dot_before_slash (strip E0 [97, 46, 98, 47])
   \<and> (\<exists>r w'. execute E0 (Suc 0) False line_assign_mid_dot w0 = Some (r, w')
         \<and> cells w' r = [tag_var @ [120] @ asc '' = '' @ strip E0 [97, 46, 98, 47]]
         \<and> self w' = (self w0)\<lparr>output_lines := r\<rparr>)
   \<and> starts_with [35] (strip E0 line_assign_two_words)
   \<and> 61 \<in> set (strip E0 line_assign_two_words)
   \<and> \<not> starts_with [35, 162] (strip E0 line_assign_two_words)
   \<and> match_assign E0 (strip E0 line_assign_two_words) = None
   \<and> (\<exists>r w'. execute E0 (Suc 0) False line_assign_two_words w0 = Some (r, w')
         \<and> cells w' r = [asc ''[!] '' @ msg_assign_usage]
         \<and> self w' = (self w0)\<lparr>output_lines := r\<rparr>)"
proof -
  have h0: "\<not> in_function (self w0)"
    by (simp add: w0_eval)
  have h1: "match_assign E0 (strip E0 line_assign_abc) = Some ([120], [97, 98, 99, 47])"
    "ends_with [47] (strip E0 [97, 98, 99, 47])"
    "\<not> starts_with [165] (strip E0 [97, 98, 99, 47])"
    "list_all (\<lambda>c. \<not> is_digit E0 c) (strip E0 [97, 98, 99, 47])"
    "\<not> dot_before_slash (strip E0 [97, 98, 99, 47])"
    by (simp_all add: strip_assign_lines match_assign_def ws_then_rest_def is_word_def
          is_space_def is_digit_def digit_val_def ends_with_def dot_before_slash_def)
  have h2: "match_assign E0 (strip E0 line_assign_mid_dot) = Some ([120], [97, 46, 98, 47])"
    "ends_with [47] (strip E0 [97, 46, 98, 47])"
    "\<not> starts_with [165] (strip E0 [97, 46, 98, 47])"
    "list_all (\<lambda>c. \<not> is_digit E0 c) (strip E0 [97, 46, 98, 47])"
    "\<not> dot_before_slash (strip E0 [97, 46, 98, 47])"
    by (simp_all add: strip_assign_lines match_assign_def ws_then_rest_def is_word_def
          is_space_def is_digit_def digit_val_def ends_with_def dot_before_slash_def)
  have h3: "starts_with [35] (strip E0 line_assign_two_words)"
    "61 \<in> set (strip E0 line_assign_two_words)"
    "\<not> starts_with [35, 162] (strip E0 line_assign_two_words)"
    "match_assign E0 (strip E0 line_assign_two_words) = None"
    by (simp_all add: strip_assign_lines match_assign_def ws_then_rest_def is_word_def
          is_space_def)
  note a = C9_assignment_percent_without_number [where E = E0 and w = w0 and n = 0
      and sp = False and line = line_assign_abc and name = "[120]" and g = "[97, 98, 99, 47]"]
  note b = C9_assignment_percent_without_number [where E = E0 and w = w0 and n = 0
      and sp = False and line = line_assign_mid_dot and name = "[120]"
      and g = "[97, 46, 98, 47]"]
  note c = C9_assignment_percent_without_number [where E = E0 and w = w0 and n = 0
      and sp = False and line = line_assign_two_words]
  have p1: "\<exists>r w'. execute E0 (Suc 0) False line_assign_abc w0 = Some (r, w')
         \<and> cells w' r = [tag_var @ [120] @ asc '' = '' @ strip E0 [97, 98, 99, 47]]
         \<and> self w' = (self w0)\<lparr>output_lines := r\<rparr>"
    using a h0 h1 by blast
  have p2: "\<exists>r w'. execute E0 (Suc 0) False line_assign_mid_dot w0 = Some (r, w')
         \<and> cells w' r = [tag_var @ [120] @ asc '' = '' @ strip E0 [97, 46, 98, 47]]
         \<and> self w' = (self w0)\<lparr>output_lines := r\<rparr>"
    using b h0 h2 by blast
  have p3: "\<exists>r w'. execute E0 (Suc 0) False line_assign_two_words w0 = Some (r, w')
         \<and> cells w' r = [asc ''[!] '' @ msg_assign_usage]
         \<and> self w' = (self w0)\<lparr>output_lines := r\<rparr>"
    using c h0 h3 by blast
  from h0 h1 h2 h3 p1 p2 p3 show ?thesis by blast
qed

text \<open>
  The claim as stated fails on \<open>#x = ./\<close> and on \<open>#x = \<yen>/\<close>, whose values end with
  \<open>/\<close> and have no digit: \<open>float\<close> is applied to \<open>.\<close> and to \<open>/\<close>, and the only
  output line is its diagnostic, not the confirmation.
\<close>

theorem C9_counterexample:
  "outputs_of (execute E0 (Suc 0) False line_assign_dot w0)
     = Some [asc ''[!] could not convert string to float: '' @ [39, 46, 39]]
   \<and> outputs_of (execute E0 (Suc 0) False line_assign_yen w0)
     = Some [asc ''[!] could not convert string to float: '' @ [39, 47, 39]]
   \<and> [asc ''[!] could not convert string to float: '' @ [39, 46, 39]]
     \<noteq> [tag_var @ asc ''x = ./'']
   \<and> [asc ''[!] could not convert string to float: '' @ [39, 47, 39]]
     \<noteq> [tag_var @ asc ''x = '' @ [165, 47]]"
  apply (simp add: outputs_of_def execute_Suc strip_assign_lines dispatch_assign w0_eval
        assign_variable_def match_assign_def ws_then_rest_def slash_next_def py_float_def
        dec_literal_def ascii_digit_def float_error_def cells_out_append tag_var_def
        is_word_def is_space_def is_dd_def is_digit_def digit_val_def ends_with_def asc_def)
  apply (simp add: E0_def float_error_def cells_out_append asc_def)
  done

end
